theory Spec2Isabelle
  imports Complex_Main "HOL-Library.Sublist" "HOL-Library.Log_Nat" "HOL-Library.Multiset"
    "HOL-Library.Word"
begin

section \<open>JavaScript strings\<close>

text \<open>
  A JavaScript string is a sequence of UTF-16 code units. \<open>str\<close> writes a string of ASCII
  characters, one code unit for each.
\<close>

type_synonym code_unit = "16 word"
type_synonym js_string = "code_unit list"

definition cu :: "char \<Rightarrow> code_unit" where
  "cu c = of_char c"

definition str :: "string \<Rightarrow> js_string" where
  "str s = map cu s"

text \<open>
  The white space that \<^verbatim>\<open>trim\<close>, \<^verbatim>\<open>parseFloat\<close> and \<^verbatim>\<open>Number\<close> strip is \<^verbatim>\<open>WhiteSpace\<close> and
  \<^verbatim>\<open>LineTerminator\<close> of ECMAScript: TAB, LF, VT, FF, CR, SPACE, U+00A0, U+FEFF, the line and
  paragraph separators U+2028 and U+2029, and the other space separators of Unicode
  (U+1680, U+2000 to U+200A, U+202F, U+205F, U+3000). Each is one code unit.
\<close>

definition isWhiteSpace :: "code_unit \<Rightarrow> bool" where
  "isWhiteSpace c =
     (c \<in> {0x0009, 0x000A, 0x000B, 0x000C, 0x000D, 0x0020, 0x00A0, 0x1680, 0x2028, 0x2029,
            0x202F, 0x205F, 0x3000, 0xFEFF}
      \<or> (0x2000 \<le> c \<and> c \<le> 0x200A))"

definition trimStart :: "js_string \<Rightarrow> js_string" where
  "trimStart s = dropWhile isWhiteSpace s"

definition trim :: "js_string \<Rightarrow> js_string" where
  "trim s = rev (dropWhile isWhiteSpace (rev (dropWhile isWhiteSpace s)))"

text \<open>
  \<^verbatim>\<open>toLowerCase\<close> follows the case mappings of Unicode, a table that is no part of the
  sources: the functions that lower-case a string take \<open>toLowerCase\<close> as an argument. All
  that is used of it is that the empty string, and no other, has an empty lower case.
\<close>

text \<open>\<^verbatim>\<open>s.includes(q)\<close>: \<open>q\<close> occurs in \<open>s\<close> at some position, searched from the left.\<close>

fun includes_str :: "js_string \<Rightarrow> js_string \<Rightarrow> bool" where
  "includes_str [] q = (q = [])"
| "includes_str (c # cs) q = (prefix q (c # cs) \<or> includes_str cs q)"

text \<open>\<^verbatim>\<open>Boolean(f)\<close> for \<^verbatim>\<open>f: string | null\<close>: \<^verbatim>\<open>null\<close> and \<^verbatim>\<open>""\<close> are falsy.\<close>

definition Boolean_str :: "js_string option \<Rightarrow> bool" where
  "Boolean_str f = (case f of None \<Rightarrow> False | Some s \<Rightarrow> s \<noteq> [])"

text \<open>\<^verbatim>\<open>s || null\<close> for a string \<open>s\<close>.\<close>

definition or_null :: "js_string \<Rightarrow> js_string option" where
  "or_null s = (if s \<noteq> [] then Some s else None)"

section \<open>JavaScript numbers\<close>

text \<open>
  A Number is an IEEE 754 double: \<open>Num q\<close> for a finite one, with \<open>q\<close> its exact value, and
  the three values that are not finite. The two zeros are one value (\<^verbatim>\<open>JSON.stringify\<close>
  and the store see no difference).
\<close>

datatype number = Num rat | NaN | Infinity | NegInfinity

definition Number_isFinite :: "number \<Rightarrow> bool" where
  "Number_isFinite x = (case x of Num _ \<Rightarrow> True | _ \<Rightarrow> False)"

definition pow2 :: "int \<Rightarrow> rat" where
  "pow2 e = (if 0 \<le> e then 2 ^ nat e else 1 / 2 ^ nat (- e))"

definition pow10 :: "int \<Rightarrow> rat" where
  "pow10 e = (if 0 \<le> e then 10 ^ nat e else 1 / 10 ^ nat (- e))"

text \<open>For \<open>x > 0\<close>: the \<open>e\<close> with \<open>2 ^ e \<le> x < 2 ^ (e + 1)\<close>.\<close>

definition binary_exponent :: "rat \<Rightarrow> int" where
  "binary_exponent x =
     (if 1 \<le> x then bitlen \<lfloor>x\<rfloor> - 1 else - bitlen (\<lceil>1 / x\<rceil> - 1))"

text \<open>The number of decimal digits of an integer \<open>a \<ge> 1\<close>.\<close>

function decimal_length :: "int \<Rightarrow> int" where
  "decimal_length a = (if a < 10 then 1 else decimal_length (a div 10) + 1)"
  by pat_completeness auto
termination
  by (relation "measure nat") auto

text \<open>For \<open>x > 0\<close>: the \<open>n\<close> with \<open>10 ^ (n - 1) \<le> x < 10 ^ n\<close>.\<close>

definition decimal_exponent :: "rat \<Rightarrow> int" where
  "decimal_exponent x =
     (if 1 \<le> x then decimal_length \<lfloor>x\<rfloor>
      else 1 - decimal_length (\<lceil>1 / x\<rceil> - 1))"

definition round_half_even :: "rat \<Rightarrow> int" where
  "round_half_even q =
     (let f = \<lfloor>q\<rfloor>; d = q - of_int f
      in if d < 1 / 2 then f else if 1 / 2 < d then f + 1 else if even f then f else f + 1)"

text \<open>
  The Number value for a mathematical value: the nearest double, a tie going to the even
  significand (53 bits, the least exponent that of the subnormals), and from \<open>2 ^ 1024\<close>
  on an infinity (which only a value from \<open>2 ^ 1023\<close> on can reach).
\<close>

definition to_double :: "rat \<Rightarrow> number" where
  "to_double q =
     (if q = 0 then Num 0
      else
        let a = \<bar>q\<bar>;
            e = binary_exponent a;
            ulp = pow2 (max e (- 1022) - 52);
            r = of_int (round_half_even (a / ulp)) * ulp
        in if e < 1023 then Num (if q < 0 then - r else r)
           else if pow2 1024 \<le> r then (if q < 0 then NegInfinity else Infinity)
           else Num (if q < 0 then - r else r))"

subsection \<open>Numbers to strings\<close>

text \<open>
  \<^verbatim>\<open>Number::toString\<close> takes, for a double \<open>x > 0\<close>, integers \<open>s\<close>, \<open>k\<close>, \<open>n\<close> with
  \<open>10 ^ (k - 1) \<le> s < 10 ^ k\<close> such that \<open>s * 10 ^ (n - k)\<close> is read back as \<open>x\<close>, with \<open>k\<close> as
  small as possible and then \<open>s * 10 ^ (n - k)\<close> as close to \<open>x\<close> as possible (the even \<open>s\<close>
  of two). For each \<open>k\<close> the two candidates are the \<open>k\<close>-digit decimals next to \<open>x\<close>;
  17 digits identify every double.
\<close>

definition shortest_at :: "nat \<Rightarrow> rat \<Rightarrow> (int \<times> nat \<times> int) option" where
  "shortest_at k x =
     (let n = decimal_exponent x;
          scale = pow10 (n - int k);
          lo = \<lfloor>x / scale\<rfloor>;
          hi = lo + 1;
          ok_lo = (to_double (of_int lo * scale) = Num x);
          ok_hi = (to_double (of_int hi * scale) = Num x);
          d_lo = x - of_int lo * scale;
          d_hi = of_int hi * scale - x
      in if ok_lo \<and> (\<not> ok_hi \<or> d_lo < d_hi \<or> (d_lo = d_hi \<and> even lo)) then Some (lo, k, n)
         else if ok_hi then Some (if hi = 10 ^ k then (10 ^ (k - 1), k, n + 1) else (hi, k, n))
         else None)"

fun shortest_from :: "nat \<Rightarrow> nat \<Rightarrow> rat \<Rightarrow> int \<times> nat \<times> int" where
  "shortest_from 0 k x =
     (case shortest_at k x of
        Some r \<Rightarrow> r
      | None \<Rightarrow> (\<lfloor>x / pow10 (decimal_exponent x - int k)\<rfloor>, k, decimal_exponent x))"
| "shortest_from (Suc fuel) k x =
     (case shortest_at k x of
        Some r \<Rightarrow> r
      | None \<Rightarrow> shortest_from fuel (Suc k) x)"

definition shortest :: "rat \<Rightarrow> int \<times> nat \<times> int" where
  "shortest x = shortest_from 16 1 x"

definition digit_char :: "int \<Rightarrow> code_unit" where
  "digit_char d = (str ''0123456789'') ! nat d"

text \<open>The decimal digits of an integer \<open>n \<ge> 0\<close>.\<close>

function digits :: "int \<Rightarrow> js_string" where
  "digits n = (if n < 10 then [digit_char n] else digits (n div 10) @ [digit_char (n mod 10)])"
  by pat_completeness auto
termination
  by (relation "measure nat") auto

definition exponent_part :: "int \<Rightarrow> js_string" where
  "exponent_part e = (cu CHR ''e'') # (if 0 \<le> e then (cu CHR ''+'') else (cu CHR ''-'')) # digits \<bar>e\<bar>"

definition toString_pos :: "rat \<Rightarrow> js_string" where
  "toString_pos x =
     (let (s, k, n) = shortest x; ds = digits s
      in if int k \<le> n \<and> n \<le> 21 then ds @ replicate (nat (n - int k)) (cu CHR ''0'')
         else if 0 < n \<and> n \<le> 21 then take (nat n) ds @ (cu CHR ''.'') # drop (nat n) ds
         else if - 6 < n \<and> n \<le> 0 then (str ''0.'') @ replicate (nat (- n)) (cu CHR ''0'') @ ds
         else if k = 1 then ds @ exponent_part (n - 1)
         else take 1 ds @ (cu CHR ''.'') # drop 1 ds @ exponent_part (n - 1))"

definition Number_toString :: "number \<Rightarrow> js_string" where
  "Number_toString x =
     (case x of
        NaN \<Rightarrow> (str ''NaN'')
      | Infinity \<Rightarrow> (str ''Infinity'')
      | NegInfinity \<Rightarrow> (str ''-Infinity'')
      | Num q \<Rightarrow>
          if q = 0 then (str ''0'')
          else if q < 0 then (cu CHR ''-'') # toString_pos (- q)
          else toString_pos q)"

text \<open>
  \<^verbatim>\<open>x.toFixed(f)\<close> for \<open>x \<ge> 0\<close>: from \<open>10 ^ 21\<close> on it is \<^verbatim>\<open>ToString(x)\<close>; below, \<open>n\<close> is the
  integer for which \<open>n / 10 ^ f - x\<close> is closest to zero, the larger of two, written with
  at least \<open>f + 1\<close> digits and a point before the last \<open>f\<close>.
\<close>

definition toFixed_pos :: "nat \<Rightarrow> rat \<Rightarrow> js_string" where
  "toFixed_pos f x =
     (if 10 ^ 21 \<le> x then toString_pos x
      else
        let n = \<lfloor>x * 10 ^ f + 1 / 2\<rfloor>;
            m = digits n;
            m = (if f \<noteq> 0 \<and> length m \<le> f then replicate (f + 1 - length m) (cu CHR ''0'') @ m else m);
            k = length m
        in if f \<noteq> 0 then take (k - f) m @ (cu CHR ''.'') # drop (k - f) m else m)"

definition toFixed :: "nat \<Rightarrow> number \<Rightarrow> js_string" where
  "toFixed f x =
     (case x of
        Num q \<Rightarrow> if q < 0 then (cu CHR ''-'') # toFixed_pos f (- q) else toFixed_pos f q
      | _ \<Rightarrow> Number_toString x)"

text \<open>
  \<^verbatim>\<open>JSON.stringify\<close> of a Number: the decimal that \<^verbatim>\<open>Number::toString\<close> writes, here as its
  value, and \<^verbatim>\<open>null\<close> (\<open>None\<close>) for a Number that is not finite.
\<close>

definition JSON_number :: "number \<Rightarrow> rat option" where
  "JSON_number x =
     (case x of
        Num q \<Rightarrow>
          if q = 0 then Some 0
          else (let (s, k, n) = shortest \<bar>q\<bar>; v = of_int s * pow10 (n - int k)
                in Some (if q < 0 then - v else v))
      | _ \<Rightarrow> None)"

subsection \<open>Strings to numbers\<close>

text \<open>
  The decimal literals of \<^verbatim>\<open>StrDecimalLiteral\<close>: a sign, then \<^verbatim>\<open>Infinity\<close> or digits with an
  optional fraction and an optional exponent. A scanner returns the value and the rest of
  the string. The value of a literal is rounded to a double exactly, whatever the number of
  its digits. (\<^verbatim>\<open>Number\<close> also reads \<^verbatim>\<open>0x\<close>, \<^verbatim>\<open>0o\<close> and \<^verbatim>\<open>0b\<close> literals, which \<^verbatim>\<open>toFixed\<close>
  never writes; they are left out.)
\<close>

definition isDigit :: "code_unit \<Rightarrow> bool" where
  "isDigit c = (c \<in> set (str ''0123456789''))"

definition digits_val :: "js_string \<Rightarrow> int" where
  "digits_val s = foldl (\<lambda>a c. 10 * a + (uint c - 48)) 0 s"

definition scan_sign :: "js_string \<Rightarrow> bool \<times> js_string" where
  "scan_sign s =
     (case s of
        c # t \<Rightarrow> if c = (cu CHR ''-'') then (True, t) else if c = (cu CHR ''+'') then (False, t) else (False, s)
      | [] \<Rightarrow> (False, s))"

definition scan_exponent :: "js_string \<Rightarrow> int \<times> js_string" where
  "scan_exponent s =
     (case s of
        c # t \<Rightarrow>
          if c = (cu CHR ''e'') \<or> c = (cu CHR ''E'')
          then (let (neg, u) = scan_sign t; ds = takeWhile isDigit u
                in if ds = [] then (0, s)
                   else (if neg then - digits_val ds else digits_val ds, dropWhile isDigit u))
          else (0, s)
      | [] \<Rightarrow> (0, s))"

definition scan_unsigned_decimal :: "js_string \<Rightarrow> (rat \<times> js_string) option" where
  "scan_unsigned_decimal s =
     (let ip = takeWhile isDigit s; r1 = dropWhile isDigit s;
          (fp, r2) = (case r1 of
                        c # t \<Rightarrow> if c = (cu CHR ''.'') then (takeWhile isDigit t, dropWhile isDigit t)
                                 else ([], r1)
                      | [] \<Rightarrow> ([], r1))
      in if ip = [] \<and> fp = [] then None
         else let (e, r3) = scan_exponent r2
              in Some ((of_int (digits_val ip) + of_int (digits_val fp) / 10 ^ length fp) * pow10 e,
                       r3))"

definition scan_decimal :: "js_string \<Rightarrow> (number \<times> js_string) option" where
  "scan_decimal s =
     (let (neg, t) = scan_sign s
      in if prefix (str ''Infinity'') t then Some (if neg then NegInfinity else Infinity, drop 8 t)
         else case scan_unsigned_decimal t of
                None \<Rightarrow> None
              | Some (v, r) \<Rightarrow> Some (to_double (if neg then - v else v), r))"

text \<open>\<^verbatim>\<open>parseFloat(s)\<close>: the longest decimal literal at the front of \<open>s\<close>, leading white space skipped.\<close>

definition parseFloat :: "js_string \<Rightarrow> number" where
  "parseFloat s = (case scan_decimal (trimStart s) of None \<Rightarrow> NaN | Some (x, _) \<Rightarrow> x)"

text \<open>\<^verbatim>\<open>Number(s)\<close>: the whole of \<open>s\<close> without the white space around it; the empty string is \<open>0\<close>.\<close>

definition Number :: "js_string \<Rightarrow> number" where
  "Number s =
     (let t = trim s
      in if t = [] then Num 0
         else case scan_decimal t of
                None \<Rightarrow> NaN
              | Some (x, r) \<Rightarrow> if r = [] then x else NaN)"

section \<open>The table \<^verbatim>\<open>public.inventory_items\<close>\<close>

text \<open>
  A row of the table, which is also the \<^verbatim>\<open>InventoryItem\<close> the page reads. \<^verbatim>\<open>UUID\<close> values are
  strings, \<^verbatim>\<open>TIMESTAMP WITH TIME ZONE\<close> values are integers (microseconds since the epoch:
  only their order matters), \<^verbatim>\<open>INTEGER\<close> columns hold integers of the 32-bit signed range,
  \<^verbatim>\<open>DECIMAL(10,2)\<close> holds an exact decimal. On the integers of that range the arithmetic of
  JavaScript numbers is exact, so the page's \<^verbatim>\<open>it.quantity\<close> is the integer itself.
  The column \<^verbatim>\<open>id\<close> is the field \<open>id'\<close>.
\<close>

type_synonym uuid = string
type_synonym timestamp = int

record inventory_item =
  id' :: uuid
  user_id :: uuid
  name :: js_string
  description :: "js_string option"
  sku :: "js_string option"
  category :: "js_string option"
  quantity :: int
  unit_price :: "rat option"
  low_stock_threshold :: "int option"
  created_at :: timestamp
  updated_at :: timestamp

type_synonym inventory_items = "inventory_item list"

text \<open>What the store reports: the PostgreSQL error classes this table can raise.\<close>

datatype pg_error =
    RlsViolation          \<comment> \<open>42501: new row violates row-level security policy\<close>
  | NotNullViolation      \<comment> \<open>23502\<close>
  | UniqueViolation       \<comment> \<open>23505: primary key\<close>
  | InvalidInteger        \<comment> \<open>22P02: a value with a fraction for an INTEGER column\<close>
  | IntegerOutOfRange     \<comment> \<open>22003\<close>
  | NumericOverflow       \<comment> \<open>22003: DECIMAL(10,2) needs an absolute value below 10^8\<close>

subsection \<open>Row level security\<close>

text \<open>
  \<open>uid\<close> is \<^verbatim>\<open>auth.uid()\<close>: the identity of the session that sends the request, \<open>None\<close>
  (SQL \<^verbatim>\<open>NULL\<close>) without a session. \<^verbatim>\<open>auth.uid() = user_id\<close> is then \<^verbatim>\<open>NULL\<close>, which no policy
  accepts.
\<close>

definition policy_select :: "uuid option \<Rightarrow> inventory_item \<Rightarrow> bool" where
  "policy_select uid r = (uid = Some (user_id r))"

definition policy_insert :: "uuid option \<Rightarrow> inventory_item \<Rightarrow> bool" where
  "policy_insert uid r = (uid = Some (user_id r))"

definition policy_update :: "uuid option \<Rightarrow> inventory_item \<Rightarrow> bool" where
  "policy_update uid r = (uid = Some (user_id r))"

definition policy_delete :: "uuid option \<Rightarrow> inventory_item \<Rightarrow> bool" where
  "policy_delete uid r = (uid = Some (user_id r))"

subsection \<open>Column types\<close>

definition int4_in :: "rat \<Rightarrow> pg_error + int" where
  "int4_in q =
     (if of_int \<lfloor>q\<rfloor> \<noteq> q then Inl InvalidInteger
      else if \<lfloor>q\<rfloor> < - (2 ^ 31) \<or> 2 ^ 31 \<le> \<lfloor>q\<rfloor> then Inl IntegerOutOfRange
      else Inr \<lfloor>q\<rfloor>)"

text \<open>\<^verbatim>\<open>DECIMAL(10,2)\<close>: the value is rounded to two fractional digits, halves away from zero.\<close>

definition round_scale2 :: "rat \<Rightarrow> rat" where
  "round_scale2 q =
     (if 0 \<le> q then of_int \<lfloor>q * 100 + 1 / 2\<rfloor> / 100
      else - (of_int \<lfloor>- q * 100 + 1 / 2\<rfloor> / 100))"

definition numeric_10_2_in :: "rat \<Rightarrow> pg_error + rat" where
  "numeric_10_2_in q =
     (let r = round_scale2 q in if 10 ^ 8 \<le> \<bar>r\<bar> then Inl NumericOverflow else Inr r)"

subsection \<open>The requests of the page\<close>

text \<open>
  \<^verbatim>\<open>select("*").order("created_at", { ascending: false })\<close>: the rows the select policy
  shows, latest first. (PostgreSQL leaves the order of rows with equal \<^verbatim>\<open>created_at\<close> open;
  here they keep their order in the table.)
\<close>

definition select_order_created_at_desc ::
  "uuid option \<Rightarrow> inventory_items \<Rightarrow> pg_error + inventory_item list" where
  "select_order_created_at_desc uid tbl =
     Inr (sort_key (\<lambda>r. - created_at r) (filter (policy_select uid) tbl))"

text \<open>
  Modelled from the spec: the trigger function \<^verbatim>\<open>public.update_updated_at_column()\<close> is
  not among the sources; by the spec \<^verbatim>\<open>updated_at\<close> is "maintained by the store itself on
  every update" and "refreshed automatically on every mutation", so the function sets
  \<^verbatim>\<open>updated_at\<close> of the new row to the time of the update.
\<close>

definition update_updated_at_column :: "timestamp \<Rightarrow> inventory_item \<Rightarrow> inventory_item" where
  "update_updated_at_column now r = r\<lparr>updated_at := now\<rparr>"

text \<open>
  The rows an \<^verbatim>\<open>UPDATE\<close> or \<^verbatim>\<open>DELETE\<close> with \<^verbatim>\<open>.eq("id", target)\<close> reaches: the row must be
  visible (select policy, as the filter reads a column), pass the command's own policy,
  and match the filter.
\<close>

definition update_target :: "uuid option \<Rightarrow> uuid \<Rightarrow> inventory_item \<Rightarrow> bool" where
  "update_target uid target r =
     (policy_select uid r \<and> policy_update uid r \<and> id' r = target)"

definition delete_target :: "uuid option \<Rightarrow> uuid \<Rightarrow> inventory_item \<Rightarrow> bool" where
  "delete_target uid target r =
     (policy_select uid r \<and> policy_delete uid r \<and> id' r = target)"

text \<open>
  \<^verbatim>\<open>update({ quantity: newQty }).eq("id", target)\<close> at time \<open>now\<close>. The value is converted
  to the column's type first; each row reached gets the new quantity and then runs the
  \<^verbatim>\<open>BEFORE UPDATE\<close> trigger. Reaching no row is no error.
\<close>

definition update_quantity_eq_id ::
  "uuid option \<Rightarrow> uuid \<Rightarrow> int \<Rightarrow> timestamp \<Rightarrow> inventory_items \<Rightarrow> pg_error + inventory_items" where
  "update_quantity_eq_id uid target newQty now tbl =
     (case int4_in (of_int newQty) of
        Inl e \<Rightarrow> Inl e
      | Inr v \<Rightarrow>
          Inr (map (\<lambda>r. if update_target uid target r
                         then update_updated_at_column now (r\<lparr>quantity := v\<rparr>) else r) tbl))"

text \<open>\<^verbatim>\<open>delete().eq("id", target)\<close>. Reaching no row is no error.\<close>

definition delete_eq_id :: "uuid option \<Rightarrow> uuid \<Rightarrow> inventory_items \<Rightarrow> pg_error + inventory_items" where
  "delete_eq_id uid target tbl = Inr (filter (\<lambda>r. \<not> delete_target uid target r) tbl)"

text \<open>The number of rows a request reaches.\<close>

definition rows_affected :: "(inventory_item \<Rightarrow> bool) \<Rightarrow> inventory_items \<Rightarrow> nat" where
  "rows_affected reached tbl = length (filter reached tbl)"

subsection \<open>Insert\<close>

text \<open>
  The values of an insert: the object the page builds (numbers are JavaScript Numbers,
  \<open>'q = number\<close> and \<open>'p = number option\<close>) and the JSON body the store receives (numbers are
  decimals or \<^verbatim>\<open>null\<close>, \<open>'q = 'p = rat option\<close>).
\<close>

record ('q, 'p) new_item =
  new_user_id :: uuid
  new_name :: js_string
  new_description :: "js_string option"
  new_sku :: "js_string option"
  new_category :: "js_string option"
  new_quantity :: 'q
  new_unit_price :: 'p
  new_low_stock_threshold :: 'q

definition JSON_stringify :: "(number, number option) new_item \<Rightarrow> (rat option, rat option) new_item" where
  "JSON_stringify v =
     \<lparr>new_user_id = new_user_id v, new_name = new_name v,
      new_description = new_description v, new_sku = new_sku v, new_category = new_category v,
      new_quantity = JSON_number (new_quantity v),
      new_unit_price = (case new_unit_price v of None \<Rightarrow> None | Some x \<Rightarrow> JSON_number x),
      new_low_stock_threshold = JSON_number (new_low_stock_threshold v)\<rparr>"

definition nullable_int4_in :: "rat option \<Rightarrow> pg_error + int option" where
  "nullable_int4_in v =
     (case v of
        None \<Rightarrow> Inr None
      | Some q \<Rightarrow> (case int4_in q of Inl e \<Rightarrow> Inl e | Inr i \<Rightarrow> Inr (Some i)))"

definition nullable_numeric_10_2_in :: "rat option \<Rightarrow> pg_error + rat option" where
  "nullable_numeric_10_2_in v =
     (case v of
        None \<Rightarrow> Inr None
      | Some q \<Rightarrow> (case numeric_10_2_in q of Inl e \<Rightarrow> Inl e | Inr r \<Rightarrow> Inr (Some r)))"

text \<open>
  \<^verbatim>\<open>insert(body)\<close> at time \<open>now\<close>, \<open>new_id\<close> being what \<^verbatim>\<open>gen_random_uuid()\<close> returns. The
  values are converted to the column types, \<^verbatim>\<open>id\<close>, \<^verbatim>\<open>created_at\<close> and \<^verbatim>\<open>updated_at\<close> take
  their defaults, and the new row must pass the insert policy, then the \<^verbatim>\<open>NOT NULL\<close>
  constraint of \<^verbatim>\<open>quantity\<close>, then the primary key. A \<^verbatim>\<open>null\<close> that the body spells out is
  no default. (The policy reads \<^verbatim>\<open>user_id\<close> only: the quantity of the row it is asked about
  does not matter.)
\<close>

definition new_row ::
  "uuid \<Rightarrow> timestamp \<Rightarrow> (rat option, rat option) new_item \<Rightarrow> int \<Rightarrow> rat option \<Rightarrow> int option
     \<Rightarrow> inventory_item" where
  "new_row new_id now body qty price thr =
     \<lparr>id' = new_id, user_id = new_user_id body, name = new_name body,
      description = new_description body, sku = new_sku body, category = new_category body,
      quantity = qty, unit_price = price, low_stock_threshold = thr,
      created_at = now, updated_at = now\<rparr>"

definition insert_row ::
  "uuid option \<Rightarrow> uuid \<Rightarrow> timestamp \<Rightarrow> (rat option, rat option) new_item \<Rightarrow> inventory_items
     \<Rightarrow> pg_error + inventory_items" where
  "insert_row uid new_id now body tbl =
     (case nullable_int4_in (new_quantity body) of
        Inl e \<Rightarrow> Inl e
      | Inr qty \<Rightarrow>
     (case nullable_numeric_10_2_in (new_unit_price body) of
        Inl e \<Rightarrow> Inl e
      | Inr price \<Rightarrow>
     (case nullable_int4_in (new_low_stock_threshold body) of
        Inl e \<Rightarrow> Inl e
      | Inr thr \<Rightarrow>
          if \<not> policy_insert uid
               (new_row new_id now body (case qty of None \<Rightarrow> 0 | Some q \<Rightarrow> q) price thr)
          then Inl RlsViolation
          else (case qty of
                  None \<Rightarrow> Inl NotNullViolation
                | Some q \<Rightarrow>
                    if new_id \<in> set (map id' tbl) then Inl UniqueViolation
                    else Inr (tbl @ [new_row new_id now body q price thr])))))"

section \<open>The page \<^verbatim>\<open>Inventory.tsx\<close>\<close>

text \<open>
  What a mutation or query function throws: \<^verbatim>\<open>new Error(message)\<close>, or the \<^verbatim>\<open>error\<close> of the
  store's response.
\<close>

datatype error = Error string | StoreError pg_error

text \<open>
  The toasts, by their titles: "Item added", "Add failed", "Update failed", "Item deleted",
  "Delete failed"; a failure toast shows the message of the error it carries.
\<close>

datatype toast = Item_added | Add_failed error | Update_failed error | Item_deleted | Delete_failed error

text \<open>
  The state of the page: the \<^verbatim>\<open>useState\<close> variables (those whose names are also columns
  carry the suffix \<open>_input\<close>), the toasts shown so far, and whether the cached query
  \<^verbatim>\<open>["inventory-items"]\<close> has been invalidated.
\<close>

record page =
  name_input :: js_string
  sku_input :: js_string
  category_input :: js_string
  description_input :: js_string
  quantity_input :: number
  unitPrice :: js_string
  threshold :: number
  search :: js_string
  toasts :: "toast list"
  invalidated :: bool

text \<open>
  \<open>user\<close> is \<^verbatim>\<open>user.id\<close> of \<^verbatim>\<open>useAuth()\<close>, \<open>None\<close> when nobody is signed in; the client sends
  the requests with that session, so the store's \<^verbatim>\<open>auth.uid()\<close> is \<open>user\<close>.
\<close>

subsection \<open>The query\<close>

definition queryFn :: "uuid option \<Rightarrow> inventory_items \<Rightarrow> error + inventory_item list" where
  "queryFn user tbl =
     (case select_order_created_at_desc user tbl of
        Inl e \<Rightarrow> Inl (StoreError e)
      | Inr data \<Rightarrow> Inr data)"

text \<open>
  \<^verbatim>\<open>useQuery\<close> with \<^verbatim>\<open>enabled: !!user && !loading\<close>: a disabled query does not run, and its
  \<^verbatim>\<open>data\<close> stays \<^verbatim>\<open>undefined\<close> (\<open>None\<close>).
\<close>

definition useQuery_items ::
  "uuid option \<Rightarrow> bool \<Rightarrow> inventory_items \<Rightarrow> (error + inventory_item list) option" where
  "useQuery_items user loading tbl =
     (if user \<noteq> None \<and> \<not> loading then Some (queryFn user tbl) else None)"

text \<open>\<^verbatim>\<open>data: items\<close> of the query: \<^verbatim>\<open>undefined\<close> unless the query ran and succeeded.\<close>

definition items_of :: "(error + inventory_item list) option \<Rightarrow> inventory_item list option" where
  "items_of q = (case q of Some (Inr data) \<Rightarrow> Some data | _ \<Rightarrow> None)"

subsection \<open>\<^verbatim>\<open>addItem\<close>\<close>

text \<open>The three numeric values of the object that \<^verbatim>\<open>addItem\<close> inserts.\<close>

definition quantity_value :: "number \<Rightarrow> number" where
  "quantity_value q = (if Number_isFinite q then q else Num 0)"

definition unit_price_value :: "js_string \<Rightarrow> number option" where
  "unit_price_value p = (if p \<noteq> [] then Some (Number (toFixed 2 (parseFloat p))) else None)"

definition low_stock_threshold_value :: "number \<Rightarrow> number" where
  "low_stock_threshold_value t = (if Number_isFinite t then t else Num 10)"

definition addItem_values :: "uuid \<Rightarrow> page \<Rightarrow> (number, number option) new_item" where
  "addItem_values user_id' p =
     \<lparr>new_user_id = user_id',
      new_name = trim (name_input p),
      new_description = or_null (trim (description_input p)),
      new_sku = or_null (trim (sku_input p)),
      new_category = or_null (trim (category_input p)),
      new_quantity = quantity_value (quantity_input p),
      new_unit_price = unit_price_value (unitPrice p),
      new_low_stock_threshold = low_stock_threshold_value (threshold p)\<rparr>"

text \<open>
  The first half of \<^verbatim>\<open>mutationFn\<close>: what it throws before it calls the store, or else the
  values it inserts.
\<close>

definition addItem_request :: "uuid option \<Rightarrow> page \<Rightarrow> error + (number, number option) new_item" where
  "addItem_request user p =
     (case user of
        None \<Rightarrow> Inl (Error ''Not authenticated'')
      | Some u \<Rightarrow>
          if trim (name_input p) = [] then Inl (Error ''Name is required'')
          else Inr (addItem_values u p))"

definition addItem_mutationFn ::
  "uuid option \<Rightarrow> page \<Rightarrow> uuid \<Rightarrow> timestamp \<Rightarrow> inventory_items \<Rightarrow> (error + unit) \<times> inventory_items" where
  "addItem_mutationFn user p new_id now tbl =
     (case addItem_request user p of
        Inl e \<Rightarrow> (Inl e, tbl)
      | Inr v \<Rightarrow>
          (case insert_row user new_id now (JSON_stringify v) tbl of
             Inl e \<Rightarrow> (Inl (StoreError e), tbl)
           | Inr tbl' \<Rightarrow> (Inr (), tbl')))"

definition addItem_onSuccess :: "page \<Rightarrow> page" where
  "addItem_onSuccess p =
     p\<lparr>invalidated := True, name_input := [], sku_input := [], category_input := [],
       description_input := [], quantity_input := Num 0, unitPrice := [], threshold := Num 10,
       toasts := toasts p @ [Item_added]\<rparr>"

definition addItem_onError :: "error \<Rightarrow> page \<Rightarrow> page" where
  "addItem_onError err p = p\<lparr>toasts := toasts p @ [Add_failed err]\<rparr>"

text \<open>\<^verbatim>\<open>addItem.mutate()\<close>: the mutation function, then the callback of its outcome.\<close>

definition addItem_mutate ::
  "uuid option \<Rightarrow> uuid \<Rightarrow> timestamp \<Rightarrow> page \<times> inventory_items \<Rightarrow> page \<times> inventory_items" where
  "addItem_mutate user new_id now st =
     (case addItem_mutationFn user (fst st) new_id now (snd st) of
        (Inl e, tbl') \<Rightarrow> (addItem_onError e (fst st), tbl')
      | (Inr _, tbl') \<Rightarrow> (addItem_onSuccess (fst st), tbl'))"

subsection \<open>\<^verbatim>\<open>updateQuantity\<close> and \<^verbatim>\<open>deleteItem\<close>\<close>

text \<open>
  \<open>newQty\<close> is an integer: the page calls \<^verbatim>\<open>updateQuantity\<close> with \<^verbatim>\<open>Math.max(0, it.quantity - 1)\<close>
  and \<^verbatim>\<open>it.quantity + 1\<close> only, for the quantity of a row it has read. The callbacks of a
  mutation change the page (toasts, the cached query), never the table.
\<close>

definition updateQuantity_mutationFn ::
  "uuid option \<Rightarrow> uuid \<Rightarrow> int \<Rightarrow> timestamp \<Rightarrow> inventory_items \<Rightarrow> (error + unit) \<times> inventory_items" where
  "updateQuantity_mutationFn user ident newQty now tbl =
     (case update_quantity_eq_id user ident newQty now tbl of
        Inl e \<Rightarrow> (Inl (StoreError e), tbl)
      | Inr tbl' \<Rightarrow> (Inr (), tbl'))"

definition updateQuantity_mutate ::
  "uuid option \<Rightarrow> uuid \<Rightarrow> int \<Rightarrow> timestamp \<Rightarrow> page \<times> inventory_items \<Rightarrow> page \<times> inventory_items" where
  "updateQuantity_mutate user ident newQty now st =
     (case updateQuantity_mutationFn user ident newQty now (snd st) of
        (Inl e, tbl') \<Rightarrow> ((fst st)\<lparr>toasts := toasts (fst st) @ [Update_failed e]\<rparr>, tbl')
      | (Inr _, tbl') \<Rightarrow> ((fst st)\<lparr>invalidated := True\<rparr>, tbl'))"

definition deleteItem_mutationFn ::
  "uuid option \<Rightarrow> uuid \<Rightarrow> inventory_items \<Rightarrow> (error + unit) \<times> inventory_items" where
  "deleteItem_mutationFn user ident tbl =
     (case delete_eq_id user ident tbl of
        Inl e \<Rightarrow> (Inl (StoreError e), tbl)
      | Inr tbl' \<Rightarrow> (Inr (), tbl'))"

definition deleteItem_mutate ::
  "uuid option \<Rightarrow> uuid \<Rightarrow> page \<times> inventory_items \<Rightarrow> page \<times> inventory_items" where
  "deleteItem_mutate user ident st =
     (case deleteItem_mutationFn user ident (snd st) of
        (Inl e, tbl') \<Rightarrow> ((fst st)\<lparr>toasts := toasts (fst st) @ [Delete_failed e]\<rparr>, tbl')
      | (Inr _, tbl') \<Rightarrow>
          ((fst st)\<lparr>invalidated := True, toasts := toasts (fst st) @ [Item_deleted]\<rparr>, tbl'))"

subsection \<open>The filtered view\<close>

definition matches :: "(js_string \<Rightarrow> js_string) \<Rightarrow> js_string \<Rightarrow> inventory_item \<Rightarrow> bool" where
  "matches toLowerCase q it =
     list_ex (\<lambda>f. case f of Some s \<Rightarrow> includes_str (toLowerCase s) q | None \<Rightarrow> False)
       (filter Boolean_str [Some (name it), sku it, category it, description it])"

definition filtered ::
  "(js_string \<Rightarrow> js_string) \<Rightarrow> inventory_item list option \<Rightarrow> js_string \<Rightarrow> inventory_item list" where
  "filtered toLowerCase items srch =
     (case items of
        None \<Rightarrow> []
      | Some its \<Rightarrow>
          (let q = toLowerCase (trim srch)
           in if q = [] then its else filter (matches toLowerCase q) its))"

subsection \<open>The rows of the table view\<close>

text \<open>
  \<^verbatim>\<open>it.quantity <= it.low_stock_threshold\<close>: in a comparison \<^verbatim>\<open>null\<close> counts as \<open>0\<close>; the
  \<^verbatim>\<open>typeof\<close> test in front keeps \<^verbatim>\<open>null\<close> out.
\<close>

definition typeof_number :: "int option \<Rightarrow> bool" where
  "typeof_number v = (v \<noteq> None)"

definition le_nullable :: "int \<Rightarrow> int option \<Rightarrow> bool" where
  "le_nullable q t = (q \<le> (case t of None \<Rightarrow> 0 | Some n \<Rightarrow> n))"

definition low :: "inventory_item \<Rightarrow> bool" where
  "low it =
     (typeof_number (low_stock_threshold it) \<and> le_nullable (quantity it) (low_stock_threshold it))"

definition row_className :: "inventory_item \<Rightarrow> string option" where
  "row_className it = (if low it then Some ''bg-destructive/10'' else None)"

text \<open>The \<^verbatim>\<open>newQty\<close> of the two arrow buttons of a row, and the three buttons.\<close>

definition decrease_newQty :: "inventory_item \<Rightarrow> int" where
  "decrease_newQty it = max 0 (quantity it - 1)"

definition increase_newQty :: "inventory_item \<Rightarrow> int" where
  "increase_newQty it = quantity it + 1"

definition onClick_decrease ::
  "uuid option \<Rightarrow> inventory_item \<Rightarrow> timestamp \<Rightarrow> page \<times> inventory_items \<Rightarrow> page \<times> inventory_items" where
  "onClick_decrease user it now st = updateQuantity_mutate user (id' it) (decrease_newQty it) now st"

definition onClick_increase ::
  "uuid option \<Rightarrow> inventory_item \<Rightarrow> timestamp \<Rightarrow> page \<times> inventory_items \<Rightarrow> page \<times> inventory_items" where
  "onClick_increase user it now st = updateQuantity_mutate user (id' it) (increase_newQty it) now st"

text \<open>\<open>confirmed\<close> is the answer to \<^verbatim>\<open>confirm("Delete this item?")\<close>.\<close>

definition onClick_delete ::
  "uuid option \<Rightarrow> inventory_item \<Rightarrow> bool \<Rightarrow> page \<times> inventory_items \<Rightarrow> page \<times> inventory_items" where
  "onClick_delete user it confirmed st = (if confirmed then deleteItem_mutate user (id' it) st else st)"

text \<open>
  The page reads \<^verbatim>\<open>unit_price\<close> of a row as a Number: the double next to the stored decimal.
\<close>

definition unit_price_read :: "inventory_item \<Rightarrow> number option" where
  "unit_price_read it = map_option to_double (unit_price it)"

section \<open>The words of the claims\<close>

text \<open>
  The claim's own words: the fields of an item that are not null, and an item one of
  whose fields, in lower case, has the query as a substring.
\<close>

definition non_null_fields :: "inventory_item \<Rightarrow> js_string list" where
  "non_null_fields it = name it # [s. Some s \<leftarrow> [sku it, category it, description it]]"

definition contains_ci :: "(js_string \<Rightarrow> js_string) \<Rightarrow> js_string \<Rightarrow> inventory_item \<Rightarrow> bool" where
  "contains_ci toLowerCase q it = (\<exists>f\<in>set (non_null_fields it). sublist q (toLowerCase f))"

section \<open>Examples\<close>

text \<open>The two items of the spec's filtering example, of two owners, and a page as it starts.\<close>

definition blue_shirt :: inventory_item where
  "blue_shirt = \<lparr>id' = ''i1'', user_id = ''alice'', name = (str ''Blue Shirt''), description = None,
     sku = Some (str ''TS-1''), category = None, quantity = 0, unit_price = None,
     low_stock_threshold = Some 10, created_at = 1, updated_at = 1\<rparr>"

definition red_hat :: inventory_item where
  "red_hat = \<lparr>id' = ''i2'', user_id = ''bob'', name = (str ''Red Hat''), description = None,
     sku = Some (str ''H-2''), category = None, quantity = 12, unit_price = None,
     low_stock_threshold = None, created_at = 2, updated_at = 2\<rparr>"

text \<open>The lower case of a string of ASCII characters: \<open>A\<close> to \<open>Z\<close> become \<open>a\<close> to \<open>z\<close>.\<close>

definition toLowerCase_ASCII :: "js_string \<Rightarrow> js_string" where
  "toLowerCase_ASCII s = map (\<lambda>c. if 0x41 \<le> c \<and> c \<le> 0x5A then c + 0x20 else c) s"

definition initial_page :: page where
  "initial_page = \<lparr>name_input = [], sku_input = [], category_input = [], description_input = [],
     quantity_input = Num 0, unitPrice = [], threshold = Num 10, search = [], toasts = [],
     invalidated = False\<rparr>"

text \<open>
  The form of the spec's round-trip example (quantity \<open>5\<close>, unit price \<open>19.999\<close>), the row it
  gives when \<open>alice\<close> adds it at time \<open>50\<close> under the id \<open>i9\<close>, and the body of an insert
  under the name of \<open>bob\<close>.
\<close>

definition mug_page :: page where
  "mug_page = initial_page\<lparr>name_input := (str '' Mug ''), sku_input := (str ''  ''), quantity_input := Num 5,
     unitPrice := (str ''19.999'')\<rparr>"

definition mug :: inventory_item where
  "mug = \<lparr>id' = ''i9'', user_id = ''alice'', name = (str ''Mug''), description = None, sku = None,
     category = None, quantity = 5, unit_price = Some 20, low_stock_threshold = Some 10,
     created_at = 50, updated_at = 50\<rparr>"

definition bobs_item :: "(rat option, rat option) new_item" where
  "bobs_item = \<lparr>new_user_id = ''bob'', new_name = (str ''Mug''), new_description = None, new_sku = None,
     new_category = None, new_quantity = Some 1, new_unit_price = None,
     new_low_stock_threshold = Some 10\<rparr>"

section \<open>Code units of characters\<close>

text \<open>
  The code unit of a character of a literal is below 256: it is told apart by the
  character, and it is white space for the seven white-space characters below 256 only.
\<close>

lemma of_char_nat_less: "(of_char c :: nat) < 256"
  by (cases c) (simp add: of_char_def)

lemma unat_cu: "unat (cu c) = of_char c"
proof -
  have "cu c = of_nat (of_char c)" by (simp add: cu_def of_nat_of_char)
  moreover have "(of_char c :: nat) mod 65536 = of_char c"
    by (rule mod_less, rule order_less_trans [OF of_char_nat_less]) simp
  ultimately show ?thesis by (simp add: unat_of_nat)
qed

lemma uint_cu: "uint (cu c) = of_char c"
  using unat_cu [of c] by (metis of_nat_of_char uint_nat)

lemma cu_eq_iff: "(cu c = cu d) = (c = d)"
  by (metis unat_cu of_char_eq_iff)

lemma str_Nil: "str [] = []"
  by (simp add: str_def)

lemma str_Cons: "str (c # s) = cu c # str s"
  by (simp add: str_def)

lemma isWhiteSpace_cu:
  "isWhiteSpace (cu c) =
     (c \<in> set [CHR 0x09, CHR 0x0A, CHR 0x0B, CHR 0x0C, CHR 0x0D, CHR 0x20, CHR 0xA0])"
proof -
  have u: "unat (cu c) < 256" using of_char_nat_less [of c] by (simp add: unat_cu)
  have e: "\<And>k. (cu c = k) = (unat (cu c) = unat k)" by (simp add: word_unat_eq_iff)
  have l: "\<And>k. (k \<le> cu c) = (unat k \<le> unat (cu c))" by (simp add: word_le_nat_alt)
  have c: "\<And>d. (c = d) = (unat (cu c) = of_char d)" by (simp add: unat_cu)
  show ?thesis unfolding isWhiteSpace_def using u
    by (simp add: e l c)
qed

section \<open>Evaluating the number functions\<close>

declare decimal_length.simps [simp del] digits.simps [simp del]

lemma floor_rat_numeral_divide:
  "\<lfloor>numeral a / numeral b :: rat\<rfloor> = numeral a div numeral b"
  by (metis floor_divide_of_int_eq of_int_numeral)

lemma ceiling_rat_numeral_divide:
  "\<lceil>numeral a / numeral b :: rat\<rceil> = - (- numeral a div numeral b)"
  by (metis ceiling_divide_eq_div of_int_numeral)

lemma floor_rat_one_divide:
  "\<lfloor>1 / numeral b :: rat\<rfloor> = 1 div numeral b"
  by (metis floor_divide_of_int_eq of_int_numeral of_int_1)

lemma ceiling_rat_one_divide:
  "\<lceil>1 / numeral b :: rat\<rceil> = - (- 1 div numeral b)"
  by (metis ceiling_divide_eq_div of_int_numeral of_int_1)

lemma bitlen_numeral: "bitlen (numeral k) = bitlen (numeral k div 2) + 1"
  by (subst compute_bitlen) simp

lemma bitlen_one: "bitlen 1 = 1"
  by (subst compute_bitlen) simp

lemma decimal_length_numeral:
  "decimal_length (numeral k) =
     (if numeral k < (10::int) then 1 else decimal_length (numeral k div 10) + 1)"
  by (rule decimal_length.simps)

lemma decimal_length_small: "decimal_length 0 = 1" "decimal_length 1 = 1"
  by (simp_all add: decimal_length.simps)

lemma digits_numeral:
  "digits (numeral k) =
     (if numeral k < (10::int) then [digit_char (numeral k)]
      else digits (numeral k div 10) @ [digit_char (numeral k mod 10)])"
  by (rule digits.simps)

lemma digits_small: "digits 0 = [digit_char 0]" "digits 1 = [digit_char 1]"
  by (simp_all add: digits.simps)

lemmas js_eval =
  floor_rat_numeral_divide ceiling_rat_numeral_divide floor_rat_one_divide ceiling_rat_one_divide
  bitlen_numeral bitlen_one decimal_length_numeral decimal_length_small digits_numeral digits_small
  to_double_def binary_exponent_def round_half_even_def pow2_def pow10_def decimal_exponent_def
  shortest_def shortest_at_def digit_char_def exponent_part_def toString_pos_def
  Number_toString_def toFixed_pos_def toFixed_def JSON_number_def isDigit_def digits_val_def
  scan_sign_def scan_exponent_def scan_unsigned_decimal_def scan_decimal_def parseFloat_def
  Number_def trim_def trimStart_def isWhiteSpace_cu str_Nil str_Cons cu_eq_iff uint_cu
  Let_def numeral_eq_Suc

section \<open>The filtered view\<close>

lemma includes_str_sublist: "includes_str s q = sublist q s"
  by (induction s) (auto simp: sublist_Cons_right)

lemma dropWhile_rev_dropWhile_Nil:
  "dropWhile P (rev (dropWhile P xs)) = [] \<longleftrightarrow> (\<forall>x\<in>set xs. P x)"
proof -
  have "dropWhile P (rev ys) = [] \<longleftrightarrow> ys = []" if "ys = dropWhile P xs" for ys
  proof (cases ys)
    case Nil
    then show ?thesis by simp
  next
    case (Cons y zs)
    then have "\<not> P y" using hd_dropWhile [of P xs] that by simp
    then show ?thesis using Cons by (auto simp: dropWhile_eq_Nil_conv)
  qed
  then have "dropWhile P (rev (dropWhile P xs)) = [] \<longleftrightarrow> dropWhile P xs = []"
    by blast
  then show ?thesis by (simp only: dropWhile_eq_Nil_conv)
qed

lemma trim_Nil_iff: "trim s = [] \<longleftrightarrow> (\<forall>c\<in>set s. isWhiteSpace c)"
  unfolding trim_def rev_is_Nil_conv by (rule dropWhile_rev_dropWhile_Nil)

lemma matches_contains_ci:
  assumes "toLowerCase [] = []" "q \<noteq> []"
  shows "matches toLowerCase q it = contains_ci toLowerCase q it"
proof -
  have keep: "(case f of Some s \<Rightarrow> includes_str (toLowerCase s) q | None \<Rightarrow> False)
      \<Longrightarrow> Boolean_str f" for f
    using assms by (cases f) (auto simp: Boolean_str_def includes_str_sublist)
  have "matches toLowerCase q it =
      list_ex (\<lambda>f. case f of Some s \<Rightarrow> includes_str (toLowerCase s) q | None \<Rightarrow> False)
        [Some (name it), sku it, category it, description it]"
    unfolding matches_def list_ex_iff using keep by auto
  also have "\<dots> = contains_ci toLowerCase q it"
    unfolding contains_ci_def non_null_fields_def
    by (auto simp: includes_str_sublist split: option.splits)
  finally show ?thesis .
qed

text \<open>
  C4: for every lower-casing that gives the empty string for the empty string only, as
  that of JavaScript does: the filter keeps exactly the items one of whose non-null fields
  contains the trimmed, lower-cased search string, case-insensitively; a search string of
  white space only (or empty) lets every item through, in the original order; no items
  give no items.
\<close>

theorem filtered_keeps_matching_items:
  assumes "\<And>s. (toLowerCase s = []) = (s = [])"
  shows "filtered toLowerCase (Some its) srch =
     (if \<forall>c\<in>set srch. isWhiteSpace c then its
      else filter (contains_ci toLowerCase (toLowerCase (trim srch))) its)
   \<and> filtered toLowerCase (Some []) srch = []
   \<and> filtered toLowerCase None srch = []"
proof -
  have "toLowerCase (trim srch) = [] \<longleftrightarrow> (\<forall>c\<in>set srch. isWhiteSpace c)"
    by (simp add: assms trim_Nil_iff)
  moreover have "toLowerCase [] = []"
    by (simp add: assms)
  ultimately show ?thesis
    by (auto simp: filtered_def Let_def matches_contains_ci cong: filter_cong)
qed

lemma toLowerCase_ASCII_Nil: "(toLowerCase_ASCII s = []) = (s = [])"
  by (simp add: toLowerCase_ASCII_def)

lemmas filter_eval =
  contains_ci_def non_null_fields_def toLowerCase_ASCII_def trim_def isWhiteSpace_def
  str_def cu_def blue_shirt_def red_hat_def includes_str_sublist [symmetric]

theorem filtered_keeps_matching_items_witness:
  "(\<forall>s. (toLowerCase_ASCII s = []) = (s = []))
   \<and> filtered toLowerCase_ASCII (Some [blue_shirt, red_hat]) (str ''shirt'') = [blue_shirt]
   \<and> filtered toLowerCase_ASCII (Some [blue_shirt, red_hat]) (str '' Ts-1  '') = [blue_shirt]
   \<and> filtered toLowerCase_ASCII (Some [blue_shirt, red_hat]) [] = [blue_shirt, red_hat]
   \<and> filtered toLowerCase_ASCII (Some [blue_shirt, red_hat]) [0x00A0, 0x2003]
       = [blue_shirt, red_hat]"
proof -
  have a: "(\<forall>c\<in>set (str ''shirt''). isWhiteSpace c) = False"
    "filter (contains_ci toLowerCase_ASCII (toLowerCase_ASCII (trim (str ''shirt''))))
       [blue_shirt, red_hat] = [blue_shirt]"
    by (simp_all add: filter_eval)
  have b: "(\<forall>c\<in>set (str '' Ts-1  ''). isWhiteSpace c) = False"
    "filter (contains_ci toLowerCase_ASCII (toLowerCase_ASCII (trim (str '' Ts-1  ''))))
       [blue_shirt, red_hat] = [blue_shirt]"
    by (simp_all add: filter_eval)
  have c: "(\<forall>c\<in>set []. isWhiteSpace c) = True"
    "(\<forall>c\<in>set [0x00A0, 0x2003]. isWhiteSpace c) = True"
    by (simp_all add: isWhiteSpace_def)
  show ?thesis
    using filtered_keeps_matching_items [OF toLowerCase_ASCII_Nil, of "[blue_shirt, red_hat]" "str ''shirt''"]
      filtered_keeps_matching_items [OF toLowerCase_ASCII_Nil, of "[blue_shirt, red_hat]" "str '' Ts-1  ''"]
      filtered_keeps_matching_items [OF toLowerCase_ASCII_Nil, of "[blue_shirt, red_hat]" "[]"]
      filtered_keeps_matching_items [OF toLowerCase_ASCII_Nil, of "[blue_shirt, red_hat]" "[0x00A0, 0x2003]"]
    by (simp only: a b c if_True if_False simp_thms toLowerCase_ASCII_Nil)
qed

section \<open>The store\<close>

lemma int4_in_of_int:
  "int4_in (of_int v) = (if v < - (2 ^ 31) \<or> 2 ^ 31 \<le> v then Inl IntegerOutOfRange else Inr v)"
  by (simp add: int4_in_def)

lemma update_quantity_eq_id_eq:
  "update_quantity_eq_id uid target v now tbl =
     (if v < - (2 ^ 31) \<or> 2 ^ 31 \<le> v then Inl IntegerOutOfRange
      else Inr (map (\<lambda>r. if update_target uid target r
                              then r\<lparr>quantity := v, updated_at := now\<rparr> else r) tbl))"
  by (simp add: update_quantity_eq_id_def int4_in_of_int update_updated_at_column_def)

lemma update_target_quantity_upd [simp]:
  "update_target uid target (r\<lparr>quantity := v, updated_at := t\<rparr>) = update_target uid target r"
  by (simp add: update_target_def policy_select_def policy_update_def)

lemma map_if_not_reached: "\<forall>r\<in>set tbl. \<not> P r \<Longrightarrow> map (\<lambda>r. if P r then f r else r) tbl = tbl"
  by (induction tbl) auto

lemma filter_not_reached: "\<forall>r\<in>set tbl. \<not> P r \<Longrightarrow> filter (\<lambda>r. \<not> P r) tbl = tbl"
  by (induction tbl) auto

lemma map_quantity_refresh:
  "map quantity (map (\<lambda>r. if P r then r\<lparr>updated_at := t\<rparr> else r) xs) = map quantity xs"
  by (induction xs) auto

lemmas store_eval =
  updateQuantity_mutationFn_def deleteItem_mutationFn_def update_quantity_eq_id_def
  delete_eq_id_def int4_in_def update_target_def delete_target_def policy_select_def
  policy_update_def policy_delete_def update_updated_at_column_def

lemma snd_updateQuantity_mutate:
  "snd (updateQuantity_mutate user ident v now st) =
     snd (updateQuantity_mutationFn user ident v now (snd st))"
  by (simp add: updateQuantity_mutate_def split: prod.splits sum.splits)

section \<open>Low stock\<close>

text \<open>
  C5: an item with a threshold is marked as low stock exactly when its quantity is at most
  the threshold; an item whose threshold is null is never marked.
\<close>

theorem low_iff_quantity_le_threshold:
  "low it = (case low_stock_threshold it of None \<Rightarrow> False | Some t \<Rightarrow> quantity it \<le> t)
   \<and> (row_className it = Some ''bg-destructive/10'') = low it"
  by (simp add: low_def typeof_number_def le_nullable_def row_className_def
      split: option.splits)

theorem low_iff_quantity_le_threshold_witness:
  "low blue_shirt \<and> \<not> low (blue_shirt\<lparr>quantity := 11\<rparr>) \<and> \<not> low (red_hat\<lparr>quantity := 0\<rparr>)
   \<and> row_className blue_shirt = Some ''bg-destructive/10''"
  using low_iff_quantity_le_threshold [of blue_shirt]
    low_iff_quantity_le_threshold [of "blue_shirt\<lparr>quantity := 11\<rparr>"]
    low_iff_quantity_le_threshold [of "red_hat\<lparr>quantity := 0\<rparr>"]
  by (simp add: blue_shirt_def red_hat_def)

section \<open>The arrow buttons\<close>

text \<open>
  C6: the decrease button writes \<open>max 0 (quantity - 1)\<close>, which is \<open>0\<close> for an item at
  quantity \<open>0\<close> and never negative; quantities that are not negative stay so under both
  arrow buttons.
\<close>

theorem decrease_floor_zero:
  "decrease_newQty it = max 0 (quantity it - 1)
   \<and> (quantity it = 0 \<longrightarrow> decrease_newQty it = 0)
   \<and> 0 \<le> decrease_newQty it
   \<and> (0 \<le> quantity it \<longrightarrow> 0 \<le> increase_newQty it)
   \<and> (quantity it \<le> 2 ^ 31 \<longrightarrow>
        snd (onClick_decrease user it now (p, tbl)) =
          map (\<lambda>r. if update_target user (id' it) r
                      then r\<lparr>quantity := max 0 (quantity it - 1), updated_at := now\<rparr>
                      else r) tbl)
   \<and> ((\<forall>r\<in>set tbl. 0 \<le> quantity r) \<longrightarrow>
        (\<forall>r\<in>set (snd (onClick_decrease user it now (p, tbl))). 0 \<le> quantity r))
   \<and> ((\<forall>r\<in>set tbl. 0 \<le> quantity r) \<and> 0 \<le> quantity it \<longrightarrow>
        (\<forall>r\<in>set (snd (onClick_increase user it now (p, tbl))). 0 \<le> quantity r))"
  by (auto simp: decrease_newQty_def increase_newQty_def onClick_decrease_def
      onClick_increase_def snd_updateQuantity_mutate updateQuantity_mutationFn_def
      update_quantity_eq_id_eq split: if_splits)

theorem decrease_floor_zero_witness:
  "quantity blue_shirt = 0 \<and> decrease_newQty blue_shirt = 0 \<and> increase_newQty blue_shirt = 1
   \<and> quantity blue_shirt \<le> 2 ^ 31
   \<and> 0 \<le> quantity blue_shirt \<and> 0 \<le> quantity red_hat
   \<and> map quantity (snd (onClick_decrease (Some ''alice'') blue_shirt 5
        (initial_page, [blue_shirt, red_hat]))) = [0, 12]
   \<and> map quantity (snd (onClick_increase (Some ''alice'') blue_shirt 5
        (initial_page, [blue_shirt, red_hat]))) = [1, 12]"
  using decrease_floor_zero [of blue_shirt "Some ''alice''" 5 initial_page "[blue_shirt, red_hat]"]
  by (simp add: blue_shirt_def red_hat_def onClick_increase_def increase_newQty_def
      onClick_decrease_def decrease_newQty_def snd_updateQuantity_mutate store_eval)

section \<open>Rows of other owners and missing rows\<close>

text \<open>
  C2, as the claim states it: an update or delete of a row of another owner, or of no row,
  fails. It does not: the store reaches no row and reports no error.
\<close>

theorem foreign_or_missing_row_counterexample:
  "updateQuantity_mutationFn (Some ''alice'') ''i2'' 7 100 [red_hat] = (Inr (), [red_hat])
   \<and> deleteItem_mutationFn (Some ''alice'') ''i2'' [red_hat] = (Inr (), [red_hat])
   \<and> updateQuantity_mutationFn (Some ''alice'') ''i1'' 7 100 [] = (Inr (), [])
   \<and> deleteItem_mutationFn (Some ''alice'') ''i1'' [] = (Inr (), [])"
  by (simp add: store_eval red_hat_def)

text \<open>
  C2, amended: when no row with the given id belongs to the caller, update (of a value of
  the INTEGER range) and delete reach no row, leave the table as it is and return without
  an error; an error thrown by update or delete is the error of the store's response.
\<close>

theorem foreign_or_missing_row_is_silent_noop:
  assumes "\<forall>r\<in>set tbl. id' r = ident \<longrightarrow> user \<noteq> Some (user_id r)"
  shows "rows_affected (update_target user ident) tbl = 0
    \<and> rows_affected (delete_target user ident) tbl = 0
    \<and> (- (2 ^ 31) \<le> newQty \<and> newQty < 2 ^ 31 \<longrightarrow>
         updateQuantity_mutationFn user ident newQty now tbl = (Inr (), tbl))
    \<and> deleteItem_mutationFn user ident tbl = (Inr (), tbl)
    \<and> (\<forall>e. fst (updateQuantity_mutationFn user ident newQty now tbl) = Inl e \<longrightarrow>
           (\<exists>pe. update_quantity_eq_id user ident newQty now tbl = Inl pe \<and> e = StoreError pe))
    \<and> (\<forall>e. fst (deleteItem_mutationFn user ident tbl) = Inl e \<longrightarrow>
           (\<exists>pe. delete_eq_id user ident tbl = Inl pe \<and> e = StoreError pe))"
proof -
  have u: "\<forall>r\<in>set tbl. \<not> update_target user ident r"
    using assms by (auto simp: update_target_def policy_select_def)
  have d: "\<forall>r\<in>set tbl. \<not> delete_target user ident r"
    using assms by (auto simp: delete_target_def policy_select_def)
  show ?thesis
    using u d
    by (auto simp: rows_affected_def updateQuantity_mutationFn_def deleteItem_mutationFn_def
        update_quantity_eq_id_eq delete_eq_id_def map_if_not_reached filter_not_reached
        split: sum.splits)
qed

theorem foreign_or_missing_row_is_silent_noop_witness:
  "id' red_hat = ''i2'' \<and> user_id red_hat \<noteq> ''alice''
   \<and> - (2 ^ 31) \<le> (7::int) \<and> (7::int) < 2 ^ 31
   \<and> updateQuantity_mutationFn (Some ''alice'') ''i2'' 7 100 [red_hat] = (Inr (), [red_hat])
   \<and> deleteItem_mutationFn (Some ''alice'') ''i2'' [red_hat] = (Inr (), [red_hat])"
  using foreign_or_missing_row_is_silent_noop [of "[red_hat]" "''i2''" "Some ''alice''" 7 100]
  by (simp add: red_hat_def)

section \<open>Listing\<close>

text \<open>
  C8, as the claim states it: without a signed-in user the list fails with an error. It
  does not: the query is disabled and does not run (and the store would answer a request
  without a session with no rows, not with an error).
\<close>

theorem list_without_user_counterexample:
  "useQuery_items None False [blue_shirt, red_hat] = None
   \<and> queryFn None [blue_shirt, red_hat] = Inr []"
  by (simp add: useQuery_items_def queryFn_def select_order_created_at_desc_def policy_select_def)

text \<open>
  C8, amended: for a signed-in user (once the session has loaded) the list is all and only
  the rows of that user, latest first; without a user, or while the session loads, the
  query does not run, the items are undefined and the view is empty.
\<close>

theorem list_own_items_latest_first:
  "(\<exists>rows. useQuery_items (Some a) False tbl = Some (Inr rows)
      \<and> mset rows = mset (filter (\<lambda>r. user_id r = a) tbl)
      \<and> sorted_wrt (\<lambda>r s. created_at s \<le> created_at r) rows)
   \<and> useQuery_items None loading tbl = None
   \<and> useQuery_items user True tbl = None
   \<and> items_of (useQuery_items None loading tbl) = None
   \<and> filtered toLowerCase (items_of (useQuery_items None loading tbl)) srch = []"
proof -
  let ?rows = "sort_key (\<lambda>r. - created_at r) (filter (policy_select (Some a)) tbl)"
  have 1: "useQuery_items (Some a) False tbl = Some (Inr ?rows)"
    by (simp add: useQuery_items_def queryFn_def select_order_created_at_desc_def)
  have "policy_select (Some a) = (\<lambda>r. user_id r = a)"
    by (auto simp: policy_select_def fun_eq_iff)
  then have 2: "mset ?rows = mset (filter (\<lambda>r. user_id r = a) tbl)"
    by simp
  have "sorted (map (\<lambda>r. - created_at r) ?rows)"
    by (rule sorted_sort_key)
  then have 3: "sorted_wrt (\<lambda>r s. created_at s \<le> created_at r) ?rows"
    by (simp add: sorted_map)
  show ?thesis
    using 1 2 3 by (auto simp: useQuery_items_def items_of_def filtered_def)
qed

theorem list_own_items_latest_first_witness:
  "useQuery_items (Some ''alice'') False
       [blue_shirt, red_hat, blue_shirt\<lparr>id' := ''i3'', created_at := 3\<rparr>]
     = Some (Inr [blue_shirt\<lparr>id' := ''i3'', created_at := 3\<rparr>, blue_shirt])
   \<and> useQuery_items None False [blue_shirt, red_hat] = None"
  using list_own_items_latest_first [of "''alice''"
      "[blue_shirt, red_hat, blue_shirt\<lparr>id' := ''i3'', created_at := 3\<rparr>]" False "None"
      toLowerCase_ASCII "[]"]
  by (simp add: useQuery_items_def queryFn_def select_order_created_at_desc_def policy_select_def
      blue_shirt_def red_hat_def)

section \<open>Updating a quantity twice\<close>

text \<open>
  C9: two calls of \<open>updateQuantity\<close> in a row with the same value \<open>v\<close>: the second call has
  the outcome of the first and changes no quantity; where the calls succeed, the rows
  reached have quantity \<open>v\<close>, the first call changes nothing but \<open>quantity\<close> and
  \<open>updated_at\<close> of these rows, and the second nothing but \<open>updated_at\<close>.
\<close>

theorem updateQuantity_twice_same_value:
  assumes "updateQuantity_mutationFn user ident v t1 tbl = (res1, tbl1)"
      and "updateQuantity_mutationFn user ident v t2 tbl1 = (res2, tbl2)"
  shows "res2 = res1
    \<and> tbl1 = map (\<lambda>r. if res1 = Inr () \<and> update_target user ident r
                       then r\<lparr>quantity := v, updated_at := t1\<rparr> else r) tbl
    \<and> tbl2 = map (\<lambda>r. if res1 = Inr () \<and> update_target user ident r
                       then r\<lparr>updated_at := t2\<rparr> else r) tbl1
    \<and> map quantity tbl2 = map quantity tbl1
    \<and> (res1 = Inr () \<longrightarrow> (\<forall>r\<in>set tbl2. update_target user ident r \<longrightarrow> quantity r = v))"
proof (cases "v < - (2 ^ 31) \<or> 2 ^ 31 \<le> v")
  case True
  then have "res1 = Inl (StoreError IntegerOutOfRange)" "tbl1 = tbl"
    using assms(1) by (simp_all add: updateQuantity_mutationFn_def update_quantity_eq_id_eq)
  moreover from True have "res2 = Inl (StoreError IntegerOutOfRange)" "tbl2 = tbl1"
    using assms(2) by (simp_all add: updateQuantity_mutationFn_def update_quantity_eq_id_eq)
  ultimately show ?thesis by simp
next
  case False
  let ?f = "\<lambda>t r. if update_target user ident r then r\<lparr>quantity := v, updated_at := t\<rparr> else r"
  from False have 1: "res1 = Inr ()" "tbl1 = map (?f t1) tbl"
    using assms(1) by (simp_all add: updateQuantity_mutationFn_def update_quantity_eq_id_eq)
  from False have 2: "res2 = Inr ()" "tbl2 = map (?f t2) tbl1"
    using assms(2) by (simp_all add: updateQuantity_mutationFn_def update_quantity_eq_id_eq)
  have q: "quantity r = v" if "r \<in> set tbl1" "update_target user ident r" for r
  proof -
    from that(1) have "r \<in> ?f t1 ` set tbl"
      unfolding 1(2) by (simp only: set_map)
    then obtain r0 where r0: "r = ?f t1 r0"
      by blast
    show ?thesis
    proof (cases "update_target user ident r0")
      case True
      then show ?thesis by (simp add: r0)
    next
      case False
      then show ?thesis using that(2) by (simp add: r0)
    qed
  qed
  have 3: "tbl2 = map (\<lambda>r. if update_target user ident r then r\<lparr>updated_at := t2\<rparr> else r) tbl1"
    unfolding 2(2)
  proof (rule map_cong [OF refl])
    fix r assume "r \<in> set tbl1"
    then show "?f t2 r = (if update_target user ident r then r\<lparr>updated_at := t2\<rparr> else r)"
      using q [of r] by (cases "update_target user ident r") simp_all
  qed
  have 4: "map quantity tbl2 = map quantity tbl1"
    unfolding 3 by (rule map_quantity_refresh)
  have 5: "\<forall>r\<in>set tbl2. update_target user ident r \<longrightarrow> quantity r = v"
  proof (intro ballI impI)
    fix r assume "r \<in> set tbl2" and t: "update_target user ident r"
    then have "r \<in> ?f t2 ` set tbl1"
      unfolding 2(2) by (simp only: set_map)
    then obtain r0 where r0: "r = ?f t2 r0"
      by blast
    show "quantity r = v"
    proof (cases "update_target user ident r0")
      case True
      then show ?thesis by (simp add: r0)
    next
      case False
      then show ?thesis using t by (simp add: r0)
    qed
  qed
  show ?thesis
  proof (intro conjI)
    show "res2 = res1" by (simp only: 1 2)
    show "tbl1 = map (\<lambda>r. if res1 = Inr () \<and> update_target user ident r
                       then r\<lparr>quantity := v, updated_at := t1\<rparr> else r) tbl"
      by (simp only: 1 simp_thms)
    show "tbl2 = map (\<lambda>r. if res1 = Inr () \<and> update_target user ident r
                       then r\<lparr>updated_at := t2\<rparr> else r) tbl1"
      using 3 by (simp only: 1(1) simp_thms)
    show "map quantity tbl2 = map quantity tbl1" by (rule 4)
    show "res1 = Inr () \<longrightarrow> (\<forall>r\<in>set tbl2. update_target user ident r \<longrightarrow> quantity r = v)"
      using 5 by blast
  qed
qed

theorem updateQuantity_twice_same_value_witness:
  "updateQuantity_mutationFn (Some ''alice'') ''i1'' 7 100 [blue_shirt, red_hat]
     = (Inr (), [blue_shirt\<lparr>quantity := 7, updated_at := 100\<rparr>, red_hat])
   \<and> updateQuantity_mutationFn (Some ''alice'') ''i1'' 7 200
        [blue_shirt\<lparr>quantity := 7, updated_at := 100\<rparr>, red_hat]
     = (Inr (), [blue_shirt\<lparr>quantity := 7, updated_at := 200\<rparr>, red_hat])
   \<and> map quantity [blue_shirt\<lparr>quantity := 7, updated_at := 200\<rparr>, red_hat]
     = map quantity [blue_shirt\<lparr>quantity := 7, updated_at := 100\<rparr>, red_hat]"
proof -
  have a: "updateQuantity_mutationFn (Some ''alice'') ''i1'' 7 100 [blue_shirt, red_hat]
     = (Inr (), [blue_shirt\<lparr>quantity := 7, updated_at := 100\<rparr>, red_hat])"
    by (simp add: store_eval blue_shirt_def red_hat_def)
  have b: "updateQuantity_mutationFn (Some ''alice'') ''i1'' 7 200
        [blue_shirt\<lparr>quantity := 7, updated_at := 100\<rparr>, red_hat]
     = (Inr (), [blue_shirt\<lparr>quantity := 7, updated_at := 200\<rparr>, red_hat])"
    by (simp add: store_eval blue_shirt_def red_hat_def)
  have c: "map quantity [blue_shirt\<lparr>quantity := 7, updated_at := 200\<rparr>, red_hat]
     = map quantity [blue_shirt\<lparr>quantity := 7, updated_at := 100\<rparr>, red_hat]"
    using updateQuantity_twice_same_value [OF a b] by blast
  show ?thesis
    by (intro conjI) (rule a, rule b, rule c)
qed

section \<open>Row level security\<close>

lemma filter_map_reached:
  "(\<And>r. Q r \<Longrightarrow> \<not> P r \<and> \<not> P (f r)) \<Longrightarrow>
     filter P (map (\<lambda>r. if Q r then f r else r) tbl) = filter P tbl"
  by (induction tbl) auto

lemma filter_filter_reached:
  "(\<And>r. Q r \<Longrightarrow> \<not> P r) \<Longrightarrow> filter P (filter (\<lambda>r. \<not> Q r) tbl) = filter P tbl"
  by (induction tbl) auto

lemma update_keeps_others:
  "update_quantity_eq_id (Some a) target v now tbl = Inr tbl' \<Longrightarrow>
     filter (\<lambda>r. user_id r \<noteq> a) tbl' = filter (\<lambda>r. user_id r \<noteq> a) tbl"
  by (auto simp: update_quantity_eq_id_eq update_target_def policy_select_def
      intro!: filter_map_reached split: if_splits)

lemma delete_keeps_others:
  "delete_eq_id (Some a) target tbl = Inr tbl' \<Longrightarrow>
     filter (\<lambda>r. user_id r \<noteq> a) tbl' = filter (\<lambda>r. user_id r \<noteq> a) tbl"
proof -
  assume "delete_eq_id (Some a) target tbl = Inr tbl'"
  then have "tbl' = filter (\<lambda>r. \<not> delete_target (Some a) target r) tbl"
    by (simp add: delete_eq_id_def)
  moreover have "filter (\<lambda>r. user_id r \<noteq> a) (filter (\<lambda>r. \<not> delete_target (Some a) target r) tbl)
      = filter (\<lambda>r. user_id r \<noteq> a) tbl"
    by (rule filter_filter_reached) (simp add: delete_target_def policy_select_def)
  ultimately show ?thesis
    by (simp only:)
qed

lemma insert_row_Inr:
  "insert_row uid new_id now body tbl = Inr tbl' \<Longrightarrow>
     uid = Some (new_user_id body) \<and> (\<exists>r. tbl' = tbl @ [r] \<and> user_id r = new_user_id body
       \<and> id' r = new_id \<and> name r = new_name body \<and> created_at r = now \<and> updated_at r = now)"
  by (auto simp: insert_row_def new_row_def policy_insert_def
      split: sum.splits option.splits if_splits)

lemma insert_keeps_others:
  "insert_row (Some a) new_id now body tbl = Inr tbl' \<Longrightarrow>
     filter (\<lambda>r. user_id r \<noteq> a) tbl' = filter (\<lambda>r. user_id r \<noteq> a) tbl"
  by (drule insert_row_Inr) auto

lemma no_row_reached_of_other_owner:
  assumes "r \<in> set tbl" "user_id r \<noteq> a" "distinct (map id' tbl)"
    and "x \<in> set tbl" "id' x = id' r"
  shows "user_id x \<noteq> a"
proof -
  have "x = r"
    using assms(1,3,4,5) by (meson distinct_map inj_onD)
  then show ?thesis
    using assms(2) by simp
qed

text \<open>
  C3: a caller \<open>a\<close> and a row \<open>r\<close> of another owner. The list of \<open>a\<close> does not contain \<open>r\<close>;
  no update or delete request of \<open>a\<close>, whatever its arguments, reaches \<open>r\<close>, and each leaves
  the rows of all other owners as they are; a request aimed at the id of \<open>r\<close> affects zero
  rows; an insert of \<open>a\<close> under the owner of \<open>r\<close> is refused, and an accepted insert adds
  nothing to the rows of other owners. All this is about the requests, whoever sends them.
\<close>

theorem row_level_security_isolates_owners:
  assumes "r \<in> set tbl" and "user_id r \<noteq> a"
  shows "(\<exists>rows. select_order_created_at_desc (Some a) tbl = Inr rows \<and> r \<notin> set rows)
    \<and> \<not> update_target (Some a) target r \<and> \<not> delete_target (Some a) target r
    \<and> (\<forall>tbl'. update_quantity_eq_id (Some a) target v now tbl = Inr tbl' \<longrightarrow>
          r \<in> set tbl' \<and> filter (\<lambda>x. user_id x \<noteq> a) tbl' = filter (\<lambda>x. user_id x \<noteq> a) tbl)
    \<and> (\<forall>tbl'. delete_eq_id (Some a) target tbl = Inr tbl' \<longrightarrow>
          r \<in> set tbl' \<and> filter (\<lambda>x. user_id x \<noteq> a) tbl' = filter (\<lambda>x. user_id x \<noteq> a) tbl)
    \<and> (distinct (map id' tbl) \<longrightarrow>
          rows_affected (update_target (Some a) (id' r)) tbl = 0
          \<and> rows_affected (delete_target (Some a) (id' r)) tbl = 0)
    \<and> (new_user_id body = user_id r \<longrightarrow> (\<exists>e. insert_row (Some a) new_id now body tbl = Inl e))
    \<and> (\<forall>tbl'. insert_row (Some a) new_id now body tbl = Inr tbl' \<longrightarrow>
          filter (\<lambda>x. user_id x \<noteq> a) tbl' = filter (\<lambda>x. user_id x \<noteq> a) tbl)"
proof -
  have mem: "r \<in> set (filter (\<lambda>x. user_id x \<noteq> a) tbl)"
    using assms by simp
  have 1: "\<exists>rows. select_order_created_at_desc (Some a) tbl = Inr rows \<and> r \<notin> set rows"
    using assms(2) by (simp add: select_order_created_at_desc_def policy_select_def)
  have 2: "\<not> update_target (Some a) target r" "\<not> delete_target (Some a) target r"
    using assms(2) by (auto simp: update_target_def delete_target_def policy_select_def)
  have 3: "r \<in> set tbl' \<and> filter (\<lambda>x. user_id x \<noteq> a) tbl' = filter (\<lambda>x. user_id x \<noteq> a) tbl"
    if "update_quantity_eq_id (Some a) target v now tbl = Inr tbl'" for tbl'
  proof -
    have eq: "filter (\<lambda>x. user_id x \<noteq> a) tbl' = filter (\<lambda>x. user_id x \<noteq> a) tbl"
      by (rule update_keeps_others [OF that])
    have "r \<in> set (filter (\<lambda>x. user_id x \<noteq> a) tbl')"
      unfolding eq by (rule mem)
    then have "r \<in> set tbl'" by simp
    then show ?thesis using eq by blast
  qed
  have 4: "r \<in> set tbl' \<and> filter (\<lambda>x. user_id x \<noteq> a) tbl' = filter (\<lambda>x. user_id x \<noteq> a) tbl"
    if "delete_eq_id (Some a) target tbl = Inr tbl'" for tbl'
  proof -
    have eq: "filter (\<lambda>x. user_id x \<noteq> a) tbl' = filter (\<lambda>x. user_id x \<noteq> a) tbl"
      by (rule delete_keeps_others [OF that])
    have "r \<in> set (filter (\<lambda>x. user_id x \<noteq> a) tbl')"
      unfolding eq by (rule mem)
    then have "r \<in> set tbl'" by simp
    then show ?thesis using eq by blast
  qed
  have 5: "rows_affected (update_target (Some a) (id' r)) tbl = 0
      \<and> rows_affected (delete_target (Some a) (id' r)) tbl = 0" if "distinct (map id' tbl)"
    using no_row_reached_of_other_owner [OF assms that]
    by (auto simp: rows_affected_def filter_empty_conv update_target_def delete_target_def
        policy_select_def)
  have 6: "\<exists>e. insert_row (Some a) new_id now body tbl = Inl e" if "new_user_id body = user_id r"
  proof (cases "insert_row (Some a) new_id now body tbl")
    case (Inl e)
    then show ?thesis by blast
  next
    case (Inr tbl')
    from insert_row_Inr [OF this] have "a = new_user_id body" by simp
    with that assms(2) show ?thesis by simp
  qed
  have 7: "filter (\<lambda>x. user_id x \<noteq> a) tbl' = filter (\<lambda>x. user_id x \<noteq> a) tbl"
    if "insert_row (Some a) new_id now body tbl = Inr tbl'" for tbl'
    by (rule insert_keeps_others [OF that])
  show ?thesis
    using 1 2 3 4 5 6 7 by blast
qed

theorem row_level_security_isolates_owners_witness:
  "red_hat \<in> set [blue_shirt, red_hat] \<and> user_id red_hat \<noteq> ''alice''
   \<and> distinct (map id' [blue_shirt, red_hat]) \<and> new_user_id bobs_item = user_id red_hat
   \<and> select_order_created_at_desc (Some ''alice'') [blue_shirt, red_hat] = Inr [blue_shirt]
   \<and> update_quantity_eq_id (Some ''alice'') (id' red_hat) 0 9 [blue_shirt, red_hat]
       = Inr [blue_shirt, red_hat]
   \<and> delete_eq_id (Some ''alice'') (id' red_hat) [blue_shirt, red_hat] = Inr [blue_shirt, red_hat]
   \<and> rows_affected (update_target (Some ''alice'') (id' red_hat)) [blue_shirt, red_hat] = 0
   \<and> rows_affected (delete_target (Some ''alice'') (id' red_hat)) [blue_shirt, red_hat] = 0
   \<and> insert_row (Some ''alice'') ''i3'' 9 bobs_item [blue_shirt, red_hat] = Inl RlsViolation"
proof -
  have h: "red_hat \<in> set [blue_shirt, red_hat]" "user_id red_hat \<noteq> ''alice''"
    by (simp_all add: red_hat_def)
  have d: "distinct (map id' [blue_shirt, red_hat])" "new_user_id bobs_item = user_id red_hat"
    by (simp_all add: red_hat_def blue_shirt_def bobs_item_def)
  have e: "select_order_created_at_desc (Some ''alice'') [blue_shirt, red_hat] = Inr [blue_shirt]"
    "update_quantity_eq_id (Some ''alice'') (id' red_hat) 0 9 [blue_shirt, red_hat]
       = Inr [blue_shirt, red_hat]"
    "delete_eq_id (Some ''alice'') (id' red_hat) [blue_shirt, red_hat] = Inr [blue_shirt, red_hat]"
    by (simp_all add: select_order_created_at_desc_def store_eval red_hat_def blue_shirt_def)
  have i: "insert_row (Some ''alice'') ''i3'' 9 bobs_item [blue_shirt, red_hat] = Inl RlsViolation"
    by (simp add: insert_row_def bobs_item_def nullable_int4_in_def nullable_numeric_10_2_in_def
        int4_in_def policy_insert_def new_row_def)
  show ?thesis
    using row_level_security_isolates_owners [OF h, of "id' red_hat" 0 9 bobs_item "''i3''"] h d e i
    by simp
qed

section \<open>Adding an item\<close>

lemmas page_eval =
  addItem_mutationFn_def addItem_request_def addItem_values_def JSON_stringify_def
  quantity_value_def unit_price_value_def low_stock_threshold_value_def Number_isFinite_def
  or_null_def insert_row_def new_row_def nullable_int4_in_def nullable_numeric_10_2_in_def
  int4_in_def numeric_10_2_in_def round_scale2_def policy_insert_def

lemma addItem_mug: "addItem_mutationFn (Some ''alice'') mug_page ''i9'' 50 [] = (Inr (), [mug])"
  by (simp add: mug_page_def initial_page_def mug_def page_eval js_eval)

lemma addItem_mug_out_of_range:
  "addItem_mutationFn (Some ''alice'') (mug_page\<lparr>quantity_input := Num 3000000000\<rparr>) ''i9'' 50 []
     = (Inl (StoreError IntegerOutOfRange), [])"
  by (simp add: mug_page_def initial_page_def page_eval js_eval)

lemma addItem_blank_name:
  "addItem_mutationFn (Some ''alice'') (mug_page\<lparr>name_input := (str ''  '')\<rparr>) ''i9'' 50 []
     = (Inl (Error ''Name is required''), [])"
  by (simp add: mug_page_def initial_page_def page_eval js_eval)

text \<open>
  C1: for a signed-in user, \<open>addItem\<close> sends an insert exactly when the trimmed name is not
  empty. With an empty trimmed name it throws "Name is required" without a request to the
  store, and the table is as before. An error of the store's response is thrown as the
  store's error, and no row is written; when the store accepts, exactly one row, with the
  trimmed name and the caller as owner, is written.
\<close>

theorem addItem_inserts_iff_name_given:
  assumes "user = Some u"
  shows "((\<exists>v. addItem_request user p = Inr v) \<longleftrightarrow> trim (name_input p) \<noteq> [])
    \<and> (trim (name_input p) = [] \<longrightarrow>
          addItem_request user p = Inl (Error ''Name is required'')
          \<and> addItem_mutationFn user p new_id now tbl = (Inl (Error ''Name is required''), tbl))
    \<and> (trim (name_input p) \<noteq> [] \<longrightarrow>
          addItem_request user p = Inr (addItem_values u p)
          \<and> (\<forall>e. insert_row user new_id now (JSON_stringify (addItem_values u p)) tbl = Inl e \<longrightarrow>
                 addItem_mutationFn user p new_id now tbl = (Inl (StoreError e), tbl))
          \<and> (\<forall>tbl'. insert_row user new_id now (JSON_stringify (addItem_values u p)) tbl = Inr tbl' \<longrightarrow>
                 addItem_mutationFn user p new_id now tbl = (Inr (), tbl')
                 \<and> (\<exists>r. tbl' = tbl @ [r] \<and> name r = trim (name_input p) \<and> user_id r = u)))
    \<and> (fst (addItem_mutationFn user p new_id now tbl) = Inr () \<longleftrightarrow>
          trim (name_input p) \<noteq> []
          \<and> (\<exists>tbl'. insert_row user new_id now (JSON_stringify (addItem_values u p)) tbl = Inr tbl'))
    \<and> (fst (addItem_mutationFn user p new_id now tbl) \<noteq> Inr () \<longrightarrow>
          snd (addItem_mutationFn user p new_id now tbl) = tbl)"
proof -
  have row: "\<exists>r. tbl' = tbl @ [r] \<and> name r = trim (name_input p) \<and> user_id r = u"
    if "insert_row user new_id now (JSON_stringify (addItem_values u p)) tbl = Inr tbl'" for tbl'
    using insert_row_Inr [OF that]
    by (auto simp: JSON_stringify_def addItem_values_def)
  show ?thesis
    using assms row
    by (auto simp: addItem_request_def addItem_mutationFn_def split: sum.splits)
qed

theorem addItem_inserts_iff_name_given_witness:
  "trim (name_input mug_page) \<noteq> [] \<and> trim (name_input (mug_page\<lparr>name_input := (str ''  '')\<rparr>)) = []
   \<and> addItem_mutationFn (Some ''alice'') mug_page ''i9'' 50 [] = (Inr (), [mug])
   \<and> name mug = trim (name_input mug_page)
   \<and> addItem_mutationFn (Some ''alice'') (mug_page\<lparr>name_input := (str ''  '')\<rparr>) ''i9'' 50 []
       = (Inl (Error ''Name is required''), [])
   \<and> addItem_request (Some ''alice'') (mug_page\<lparr>name_input := (str ''  '')\<rparr>)
       = Inl (Error ''Name is required'')
   \<and> addItem_mutationFn (Some ''alice'') (mug_page\<lparr>quantity_input := Num 3000000000\<rparr>) ''i9'' 50 []
       = (Inl (StoreError IntegerOutOfRange), [])
   \<and> trim (name_input (mug_page\<lparr>name_input := [0x00A0, 0x3000]\<rparr>)) = []
   \<and> addItem_request (Some ''alice'') (mug_page\<lparr>name_input := [0x00A0, 0x3000]\<rparr>)
       = Inl (Error ''Name is required'')
   \<and> addItem_mutationFn (Some ''alice'') (mug_page\<lparr>name_input := [0x00A0, 0x3000]\<rparr>) ''i9'' 50 [mug]
       = (Inl (Error ''Name is required''), [mug])"
proof -
  have n: "trim (name_input mug_page) = (str ''Mug'')"
    "trim (name_input (mug_page\<lparr>name_input := (str ''  '')\<rparr>)) = []"
    by (simp_all add: mug_page_def initial_page_def trim_def isWhiteSpace_cu str_Nil str_Cons
        cu_eq_iff)
  have w: "trim (name_input (mug_page\<lparr>name_input := [0x00A0, 0x3000]\<rparr>)) = []"
    by (simp add: trim_def isWhiteSpace_def)
  have m: "name mug = (str ''Mug'')"
    by (simp add: mug_def)
  show ?thesis
    using addItem_inserts_iff_name_given [of "Some ''alice''" "''alice''"
        "mug_page\<lparr>name_input := (str ''  '')\<rparr>" "''i9''" 50 "[]"]
      addItem_inserts_iff_name_given [of "Some ''alice''" "''alice''"
        "mug_page\<lparr>name_input := [0x00A0, 0x3000]\<rparr>" "''i9''" 50 "[mug]"]
      addItem_mug addItem_mug_out_of_range addItem_blank_name n w m
    by (simp add: str_Cons)
qed

section \<open>The form after adding\<close>

text \<open>
  C10: after a successful \<open>addItem\<close> the form is back at its defaults (the five texts empty,
  quantity \<open>0\<close>, threshold \<open>10\<close>); after a failed one every field of the form is as it was.
  The search field is not part of the form and is never touched.
\<close>

theorem addItem_resets_form_on_success_only:
  "(fst (addItem_mutationFn user p new_id now tbl) = Inr () \<longrightarrow>
      fst (addItem_mutate user new_id now (p, tbl)) =
        p\<lparr>invalidated := True, name_input := [], sku_input := [], category_input := [],
          description_input := [], quantity_input := Num 0, unitPrice := [],
          threshold := Num 10, toasts := toasts p @ [Item_added]\<rparr>)
   \<and> (\<forall>e. fst (addItem_mutationFn user p new_id now tbl) = Inl e \<longrightarrow>
      fst (addItem_mutate user new_id now (p, tbl)) = p\<lparr>toasts := toasts p @ [Add_failed e]\<rparr>
      \<and> snd (addItem_mutate user new_id now (p, tbl)) = tbl)
   \<and> search (fst (addItem_mutate user new_id now (p, tbl))) = search p"
proof -
  have "snd (addItem_mutationFn user p new_id now tbl) = tbl"
    if "fst (addItem_mutationFn user p new_id now tbl) = Inl e" for e
    using that by (auto simp: addItem_mutationFn_def split: sum.splits)
  then show ?thesis
    by (auto simp: addItem_mutate_def addItem_onSuccess_def addItem_onError_def
        split: prod.splits sum.splits)
qed

theorem addItem_resets_form_on_success_only_witness:
  "fst (addItem_mutationFn (Some ''alice'') mug_page ''i9'' 50 []) = Inr ()
   \<and> fst (addItem_mutate (Some ''alice'') ''i9'' 50 (mug_page, []))
       = initial_page\<lparr>invalidated := True, toasts := [Item_added]\<rparr>
   \<and> fst (addItem_mutationFn (Some ''alice'') (mug_page\<lparr>name_input := (str ''  '')\<rparr>) ''i9'' 50 [])
       = Inl (Error ''Name is required'')
   \<and> fst (addItem_mutate (Some ''alice'') ''i9'' 50 (mug_page\<lparr>name_input := (str ''  '')\<rparr>, []))
       = mug_page\<lparr>name_input := (str ''  ''), toasts := [Add_failed (Error ''Name is required'')]\<rparr>"
proof -
  have a: "fst (addItem_mutationFn (Some ''alice'') mug_page ''i9'' 50 []) = Inr ()"
    by (simp add: addItem_mug)
  have b: "fst (addItem_mutationFn (Some ''alice'') (mug_page\<lparr>name_input := (str ''  '')\<rparr>) ''i9'' 50 [])
       = Inl (Error ''Name is required'')"
    by (simp add: addItem_blank_name)
  have c: "mug_page\<lparr>invalidated := True, name_input := [], sku_input := [], category_input := [],
          description_input := [], quantity_input := Num 0, unitPrice := [],
          threshold := Num 10, toasts := toasts mug_page @ [Item_added]\<rparr>
      = initial_page\<lparr>invalidated := True, toasts := [Item_added]\<rparr>"
    by (simp add: mug_page_def initial_page_def)
  have d: "toasts (mug_page\<lparr>name_input := (str ''  '')\<rparr>) = []"
    by (simp add: mug_page_def initial_page_def)
  show ?thesis
    using addItem_resets_form_on_success_only [of "Some ''alice''" mug_page "''i9''" 50 "[]"]
      addItem_resets_form_on_success_only [of "Some ''alice''" "mug_page\<lparr>name_input := (str ''  '')\<rparr>"
        "''i9''" 50 "[]"] a b c d
    by simp
qed

section \<open>Reading back what \<open>toFixed\<close> writes\<close>

lemma digit_char_props:
  assumes "0 \<le> d" "d < 10"
  shows "isDigit (digit_char d)" "uint (digit_char d) - 48 = d"
proof -
  have "d = 0 \<or> d = 1 \<or> d = 2 \<or> d = 3 \<or> d = 4 \<or> d = 5 \<or> d = 6 \<or> d = 7 \<or> d = 8 \<or> d = 9"
    using assms by presburger
  then show "isDigit (digit_char d)" "uint (digit_char d) - 48 = d"
    by (auto simp: digit_char_def isDigit_def str_Cons str_Nil uint_cu)
qed

lemma isDigit_not_special:
  assumes "isDigit c"
  shows "\<not> isWhiteSpace c" "c \<noteq> (cu CHR ''-'')" "c \<noteq> (cu CHR ''+'')" "c \<noteq> (cu CHR ''.'')" "c \<noteq> (cu CHR ''I'')"
  using assms by (auto simp: isDigit_def isWhiteSpace_cu str_Cons str_Nil cu_eq_iff)

lemma digits_isDigit: "0 \<le> n \<Longrightarrow> c \<in> set (digits n) \<Longrightarrow> isDigit c"
proof (induction n arbitrary: c rule: digits.induct)
  case (1 n)
  show ?case
  proof (cases "n < 10")
    case True
    then show ?thesis
      using "1.prems" digit_char_props(1) [of n] by (simp add: digits.simps [of n])
  next
    case False
    then have "c \<in> set (digits (n div 10)) \<or> c = digit_char (n mod 10)"
      using "1.prems"(2) by (auto simp: digits.simps [of n])
    then show ?thesis
    proof
      assume "c \<in> set (digits (n div 10))"
      then show ?thesis
        using "1.IH" [OF False, of c] "1.prems"(1) by simp
    next
      assume "c = digit_char (n mod 10)"
      then show ?thesis
        using digit_char_props(1) [of "n mod 10"] by simp
    qed
  qed
qed

lemma digits_not_Nil: "digits n \<noteq> []"
  by (simp add: digits.simps [of n])

lemma digits_val_snoc: "digits_val (xs @ [c]) = 10 * digits_val xs + (uint c - 48)"
  by (simp add: digits_val_def)

lemma digits_val_append:
  "digits_val (xs @ ys) = digits_val xs * 10 ^ length ys + digits_val ys"
proof (induction ys rule: rev_induct)
  case Nil
  then show ?case by (simp add: digits_val_def)
next
  case (snoc y ys)
  have "digits_val (xs @ ys @ [y]) = 10 * digits_val (xs @ ys) + (uint y - 48)"
    using digits_val_snoc [of "xs @ ys" y] by simp
  then show ?case
    by (simp add: snoc.IH digits_val_snoc algebra_simps)
qed

lemma digits_val_zeros: "digits_val (replicate z (cu CHR ''0'')) = 0"
proof (induction z)
  case 0
  then show ?case by (simp add: digits_val_def)
next
  case (Suc z)
  have "replicate (Suc z) (cu CHR ''0'') = replicate z (cu CHR ''0'') @ [(cu CHR ''0'')]"
    by (simp add: replicate_append_same)
  then show ?case
    by (simp only: digits_val_snoc Suc.IH) (simp add: uint_cu)
qed

lemma digits_val_digits: "0 \<le> n \<Longrightarrow> digits_val (digits n) = n"
proof (induction n rule: digits.induct)
  case (1 n)
  show ?case
  proof (cases "n < 10")
    case True
    then show ?thesis
      using "1.prems" digit_char_props(2) [of n]
      by (simp add: digits.simps [of n] digits_val_def)
  next
    case False
    have "digits_val (digits n) = 10 * digits_val (digits (n div 10)) + (uint (digit_char (n mod 10)) - 48)"
      using False by (simp add: digits.simps [of n] digits_val_snoc)
    also have "\<dots> = 10 * (n div 10) + n mod 10"
      using "1.IH" [OF False] "1.prems" digit_char_props(2) [of "n mod 10"] by simp
    finally show ?thesis by simp
  qed
qed

lemma trim_id:
  assumes "s \<noteq> []" "\<not> isWhiteSpace (hd s)" "\<not> isWhiteSpace (last s)"
  shows "trim s = s"
proof -
  have "dropWhile isWhiteSpace s = s"
    using assms(2) by (simp add: dropWhile_eq_self_iff)
  moreover have "dropWhile isWhiteSpace (rev s) = rev s"
    using assms(1,3) by (simp add: dropWhile_eq_self_iff hd_rev)
  ultimately show ?thesis
    by (simp add: trim_def)
qed

lemma scan_unsigned_decimal_fixed:
  assumes "\<forall>c\<in>set a. isDigit c" "\<forall>c\<in>set b. isDigit c" "a \<noteq> []"
  shows "scan_unsigned_decimal (a @ (cu CHR ''.'') # b) =
    Some (of_int (digits_val a) + of_int (digits_val b) / 10 ^ length b, [])"
proof -
  have nd: "\<not> isDigit (cu CHR ''.'')"
    by (simp add: isDigit_def str_Cons str_Nil cu_eq_iff)
  have 1: "takeWhile isDigit (a @ (cu CHR ''.'') # b) = a"
    using assms(1) nd by (simp add: takeWhile_append2)
  have 2: "dropWhile isDigit (a @ (cu CHR ''.'') # b) = (cu CHR ''.'') # b"
    using assms(1) nd by (simp add: dropWhile_append2)
  have 3: "takeWhile isDigit b = b" "dropWhile isDigit b = []"
    using assms(2) by (simp_all add: takeWhile_eq_all_conv dropWhile_eq_Nil_conv)
  show ?thesis
    unfolding scan_unsigned_decimal_def Let_def 1 2
    using assms(3) by (simp add: 3 scan_exponent_def pow10_def)
qed

lemma scan_decimal_fixed:
  assumes "\<forall>c\<in>set a. isDigit c" "\<forall>c\<in>set b. isDigit c" "a \<noteq> []"
  shows "scan_decimal (a @ (cu CHR ''.'') # b) =
      Some (to_double (of_int (digits_val a) + of_int (digits_val b) / 10 ^ length b), [])"
    and "scan_decimal ((cu CHR ''-'') # a @ (cu CHR ''.'') # b) =
      Some (to_double (- (of_int (digits_val a) + of_int (digits_val b) / 10 ^ length b)), [])"
proof -
  obtain c t where a: "a = c # t"
    using assms(3) by (cases a) auto
  then have c: "isDigit c"
    using assms(1) by simp
  have s: "scan_sign (a @ (cu CHR ''.'') # b) = (False, a @ (cu CHR ''.'') # b)"
    using isDigit_not_special [OF c] by (simp add: a scan_sign_def)
  have i: "\<not> prefix (str ''Infinity'') (a @ (cu CHR ''.'') # b)"
    using isDigit_not_special [OF c] by (simp add: a str_Cons str_Nil)
  show "scan_decimal (a @ (cu CHR ''.'') # b) =
      Some (to_double (of_int (digits_val a) + of_int (digits_val b) / 10 ^ length b), [])"
    unfolding scan_decimal_def s using i
    by (simp add: scan_unsigned_decimal_fixed [OF assms])
  have s': "scan_sign ((cu CHR ''-'') # a @ (cu CHR ''.'') # b) = (True, a @ (cu CHR ''.'') # b)"
    by (simp add: scan_sign_def)
  show "scan_decimal ((cu CHR ''-'') # a @ (cu CHR ''.'') # b) =
      Some (to_double (- (of_int (digits_val a) + of_int (digits_val b) / 10 ^ length b)), [])"
    unfolding scan_decimal_def s' using i
    by (simp add: scan_unsigned_decimal_fixed [OF assms])
qed

lemma Number_fixed:
  assumes "\<forall>c\<in>set m. isDigit c" "3 \<le> length m"
  shows "Number (take (length m - 2) m @ (cu CHR ''.'') # drop (length m - 2) m) =
      to_double (of_int (digits_val m) / 100)"
    and "Number ((cu CHR ''-'') # take (length m - 2) m @ (cu CHR ''.'') # drop (length m - 2) m) =
      to_double (- (of_int (digits_val m) / 100))"
proof -
  let ?a = "take (length m - 2) m" and ?b = "drop (length m - 2) m"
  let ?s = "?a @ (cu CHR ''.'') # ?b"
  have a: "\<forall>c\<in>set ?a. isDigit c" "?a \<noteq> []"
    using assms by (auto dest: in_set_takeD)
  have b: "\<forall>c\<in>set ?b. isDigit c" "length ?b = 2" "?b \<noteq> []"
    using assms by (auto dest: in_set_dropD)
  have v: "of_int (digits_val ?a) + of_int (digits_val ?b) / 10 ^ length ?b
      = (of_int (digits_val m) / 100 :: rat)"
  proof -
    have "digits_val m = digits_val (?a @ ?b)"
      by simp
    also have "\<dots> = digits_val ?a * 100 + digits_val ?b"
      unfolding digits_val_append b(2) by simp
    finally have eq: "digits_val m = digits_val ?a * 100 + digits_val ?b" .
    show ?thesis
      unfolding b(2) eq by (simp add: add_divide_distrib)
  qed
  have h: "isDigit (hd ?a)" "isDigit (last ?b)"
    using a b by (auto simp del: hd_take last_drop)
  have t: "trim ?s = ?s"
  proof (rule trim_id)
    show "?s \<noteq> []" by simp
    show "\<not> isWhiteSpace (hd ?s)"
      using a(2) isDigit_not_special(1) [OF h(1)] by simp
    show "\<not> isWhiteSpace (last ?s)"
      using b(3) isDigit_not_special(1) [OF h(2)] by simp
  qed
  have t': "trim ((cu CHR ''-'') # ?s) = (cu CHR ''-'') # ?s"
  proof (rule trim_id)
    show "(cu CHR ''-'') # ?s \<noteq> []" by simp
    show "\<not> isWhiteSpace (hd ((cu CHR ''-'') # ?s))"
      by (simp add: isWhiteSpace_cu)
    show "\<not> isWhiteSpace (last ((cu CHR ''-'') # ?s))"
      using b(3) isDigit_not_special(1) [OF h(2)] by simp
  qed
  have sd: "scan_decimal ?s = Some (to_double (of_int (digits_val m) / 100), [])"
    using scan_decimal_fixed(1) [OF a(1) b(1) a(2)] unfolding v .
  have sd': "scan_decimal ((cu CHR ''-'') # ?s) = Some (to_double (- (of_int (digits_val m) / 100)), [])"
    using scan_decimal_fixed(2) [OF a(1) b(1) a(2)] unfolding v .
  show "Number ?s = to_double (of_int (digits_val m) / 100)"
    unfolding Number_def Let_def t sd by simp
  show "Number ((cu CHR ''-'') # ?s) = to_double (- (of_int (digits_val m) / 100))"
    unfolding Number_def Let_def t' sd' by simp
qed

lemma Number_toFixed_2:
  assumes "\<bar>x\<bar> < 10 ^ 21"
  shows "Number (toFixed 2 (Num x)) =
    to_double (if x < 0 then - (of_int \<lfloor>- x * 100 + 1 / 2\<rfloor> / 100)
               else of_int \<lfloor>x * 100 + 1 / 2\<rfloor> / 100)"
proof -
  have pos: "Number (toFixed_pos 2 y) = to_double (of_int \<lfloor>y * 100 + 1 / 2\<rfloor> / 100)"
    "Number ((cu CHR ''-'') # toFixed_pos 2 y) = to_double (- (of_int \<lfloor>y * 100 + 1 / 2\<rfloor> / 100))"
    if y: "0 \<le> y" "y < 10 ^ 21" for y :: rat
  proof -
    let ?n = "\<lfloor>y * 100 + 1 / 2\<rfloor>"
    let ?m = "if length (digits ?n) \<le> 2
      then replicate (3 - length (digits ?n)) (cu CHR ''0'') @ digits ?n else digits ?n"
    have n: "0 \<le> ?n"
      using y(1) by simp
    have f: "toFixed_pos 2 y = take (length ?m - 2) ?m @ (cu CHR ''.'') # drop (length ?m - 2) ?m"
      using y(2) by (simp add: toFixed_pos_def Let_def)
    have d: "\<forall>c\<in>set ?m. isDigit c"
      using digits_isDigit [OF n] by (auto simp: isDigit_def str_Cons str_Nil)
    have l: "3 \<le> length ?m"
      by auto
    have v: "digits_val ?m = ?n"
      using digits_val_digits [OF n] by (simp add: digits_val_append digits_val_zeros)
    show "Number (toFixed_pos 2 y) = to_double (of_int ?n / 100)"
      unfolding f using Number_fixed(1) [OF d l] unfolding v .
    show "Number ((cu CHR ''-'') # toFixed_pos 2 y) = to_double (- (of_int ?n / 100))"
      unfolding f using Number_fixed(2) [OF d l] unfolding v .
  qed
  show ?thesis
  proof (cases "x < 0")
    case True
    then have "0 \<le> - x" "- x < 10 ^ 21"
      using assms by simp_all
    from pos(2) [OF this] True show ?thesis
      by (simp add: toFixed_def)
  next
    case False
    then have "0 \<le> x" "x < 10 ^ 21"
      using assms by simp_all
    from pos(1) [OF this] False show ?thesis
      by (simp add: toFixed_def)
  qed
qed

lemma round_to_cents:
  fixes x :: rat
  shows "\<bar>of_int \<lfloor>x * 100 + 1 / 2\<rfloor> / 100 - x\<bar> \<le> 1 / 200"
proof -
  define f :: rat where "f = of_int \<lfloor>x * 100 + 1 / 2\<rfloor>"
  have "f \<le> x * 100 + 1 / 2" "x * 100 + 1 / 2 < f + 1"
    using floor_correct [of "x * 100 + 1 / 2"] by (simp_all add: f_def)
  then have "- (1 / 200) \<le> f / 100 - x" "f / 100 - x \<le> 1 / 200"
    by linarith+
  then have "\<bar>f / 100 - x\<bar> \<le> 1 / 200"
    by (intro abs_leI) linarith+
  then show ?thesis
    by (simp only: f_def)
qed

lemma round_to_cents_neg:
  fixes x :: rat
  shows "\<bar>of_int (- \<lfloor>- x * 100 + 1 / 2\<rfloor>) / 100 - x\<bar> \<le> 1 / 200"
proof -
  define g :: rat where "g = of_int \<lfloor>- x * 100 + 1 / 2\<rfloor>"
  have "\<bar>g / 100 - (- x)\<bar> \<le> 1 / 200"
    using round_to_cents [of "- x"] by (simp only: g_def)
  moreover have "of_int (- \<lfloor>- x * 100 + 1 / 2\<rfloor>) / 100 - x = - (g / 100 - (- x))"
    by (simp add: g_def)
  ultimately show ?thesis
    by (simp only: abs_minus_cancel)
qed

lemma unit_price_value_rounds:
  assumes "p \<noteq> []" "parseFloat p = Num x" "\<bar>x\<bar> < 10 ^ 21"
  shows "\<exists>n::int. unit_price_value p = Some (to_double (of_int n / 100))
    \<and> \<bar>of_int n / 100 - x\<bar> \<le> 1 / 200"
proof (cases "x < 0")
  case True
  have "unit_price_value p = Some (to_double (of_int (- \<lfloor>- x * 100 + 1 / 2\<rfloor>) / 100))"
    using assms True by (simp add: unit_price_value_def Number_toFixed_2)
  then show ?thesis
    using round_to_cents_neg [of x] by blast
next
  case False
  have "unit_price_value p = Some (to_double (of_int \<lfloor>x * 100 + 1 / 2\<rfloor> / 100))"
    using assms False by (simp add: unit_price_value_def Number_toFixed_2)
  then show ?thesis
    using round_to_cents [of x] by blast
qed

lemma example_values:
  "JSON_number (Num 5) = Some 5" "JSON_number (Num 10) = Some 10" "JSON_number (Num 20) = Some 20"
  "unit_price_value (str ''19.999'') = Some (Num 20)" "to_double 20 = Num 20"
  by (simp_all add: unit_price_value_def js_eval)

lemma example_row:
  assumes "quantity_input p = Num 5" "unitPrice p = (str ''19.999'')" "threshold p = Num 10"
    and "trim (name_input p) \<noteq> []" "new_id \<notin> set (map id' tbl)"
  shows "\<exists>r. addItem_mutationFn (Some u) p new_id now tbl = (Inr (), tbl @ [r])
    \<and> quantity r = 5 \<and> unit_price r = Some 20 \<and> unit_price_read r = Some (Num 20)
    \<and> (\<exists>rows. queryFn (Some u) (tbl @ [r]) = Inr rows \<and> r \<in> set rows)"
proof -
  let ?r = "new_row new_id now (JSON_stringify (addItem_values u p)) 5 (Some 20) (Some 10)"
  have "addItem_mutationFn (Some u) p new_id now tbl = (Inr (), tbl @ [?r])"
    using assms
    by (simp add: addItem_mutationFn_def addItem_request_def insert_row_def
        JSON_stringify_def addItem_values_def quantity_value_def low_stock_threshold_value_def
        Number_isFinite_def example_values nullable_int4_in_def nullable_numeric_10_2_in_def
        int4_in_def numeric_10_2_in_def round_scale2_def policy_insert_def new_row_def
        floor_rat_numeral_divide)
  moreover have "quantity ?r = 5" "unit_price ?r = Some 20" "unit_price_read ?r = Some (Num 20)"
    "user_id ?r = u"
    by (simp_all add: new_row_def unit_price_read_def example_values JSON_stringify_def
        addItem_values_def)
  moreover have "\<exists>rows. queryFn (Some u) (tbl @ [?r]) = Inr rows \<and> ?r \<in> set rows"
    using \<open>user_id ?r = u\<close>
    by (simp add: queryFn_def select_order_created_at_desc_def policy_select_def)
  ultimately show ?thesis by blast
qed

text \<open>
  C7: the values \<open>addItem\<close> inserts. A description, SKU or category that is empty (also after
  trimming) becomes null; a quantity or threshold that is not finite becomes \<open>0\<close> or \<open>10\<close>,
  a finite one is kept; the unit price is null for an empty input and otherwise, for an
  input that parses to a finite number \<open>x\<close> (below \<open>10 ^ 21\<close> in absolute value), the double
  next to a multiple \<open>n / 100\<close> of a cent at most half a cent from \<open>x\<close>. An item added with
  quantity \<open>5\<close> and unit price \<open>19.999\<close> is stored with quantity \<open>5\<close> and unit price \<open>20.00\<close>,
  and is read back so.
\<close>

theorem addItem_normalizes_values:
  "new_description (addItem_values u p) =
     (if trim (description_input p) = [] then None else Some (trim (description_input p)))
   \<and> new_sku (addItem_values u p) =
     (if trim (sku_input p) = [] then None else Some (trim (sku_input p)))
   \<and> new_category (addItem_values u p) =
     (if trim (category_input p) = [] then None else Some (trim (category_input p)))
   \<and> new_quantity (addItem_values u p) =
     (if Number_isFinite (quantity_input p) then quantity_input p else Num 0)
   \<and> new_low_stock_threshold (addItem_values u p) =
     (if Number_isFinite (threshold p) then threshold p else Num 10)
   \<and> (unitPrice p = [] \<longrightarrow> new_unit_price (addItem_values u p) = None)
   \<and> (\<forall>x. unitPrice p \<noteq> [] \<and> parseFloat (unitPrice p) = Num x \<and> \<bar>x\<bar> < 10 ^ 21 \<longrightarrow>
         (\<exists>n::int. new_unit_price (addItem_values u p) = Some (to_double (of_int n / 100))
            \<and> \<bar>of_int n / 100 - x\<bar> \<le> 1 / 200))
   \<and> (quantity_input p = Num 5 \<and> unitPrice p = (str ''19.999'') \<and> threshold p = Num 10
        \<and> trim (name_input p) \<noteq> [] \<and> new_id \<notin> set (map id' tbl) \<longrightarrow>
         (\<exists>r. addItem_mutationFn (Some u) p new_id now tbl = (Inr (), tbl @ [r])
            \<and> quantity r = 5 \<and> unit_price r = Some 20 \<and> unit_price_read r = Some (Num 20)
            \<and> (\<exists>rows. queryFn (Some u) (tbl @ [r]) = Inr rows \<and> r \<in> set rows)))"
proof -
  have 1: "new_description (addItem_values u p) =
      (if trim (description_input p) = [] then None else Some (trim (description_input p)))"
    "new_sku (addItem_values u p) =
      (if trim (sku_input p) = [] then None else Some (trim (sku_input p)))"
    "new_category (addItem_values u p) =
      (if trim (category_input p) = [] then None else Some (trim (category_input p)))"
    "new_quantity (addItem_values u p) =
      (if Number_isFinite (quantity_input p) then quantity_input p else Num 0)"
    "new_low_stock_threshold (addItem_values u p) =
      (if Number_isFinite (threshold p) then threshold p else Num 10)"
    "unitPrice p = [] \<longrightarrow> new_unit_price (addItem_values u p) = None"
    by (simp_all add: addItem_values_def or_null_def quantity_value_def
        low_stock_threshold_value_def unit_price_value_def)
  have 2: "\<exists>n::int. new_unit_price (addItem_values u p) = Some (to_double (of_int n / 100))
      \<and> \<bar>of_int n / 100 - x\<bar> \<le> 1 / 200"
    if "unitPrice p \<noteq> [] \<and> parseFloat (unitPrice p) = Num x \<and> \<bar>x\<bar> < 10 ^ 21" for x
    using unit_price_value_rounds [of "unitPrice p" x] that
    by (simp add: addItem_values_def)
  have 3: "\<exists>r. addItem_mutationFn (Some u) p new_id now tbl = (Inr (), tbl @ [r])
      \<and> quantity r = 5 \<and> unit_price r = Some 20 \<and> unit_price_read r = Some (Num 20)
      \<and> (\<exists>rows. queryFn (Some u) (tbl @ [r]) = Inr rows \<and> r \<in> set rows)"
    if "quantity_input p = Num 5 \<and> unitPrice p = (str ''19.999'') \<and> threshold p = Num 10
        \<and> trim (name_input p) \<noteq> [] \<and> new_id \<notin> set (map id' tbl)"
    using that example_row [of p new_id tbl u now] by blast
  show ?thesis
    using 1 2 3 by blast
qed

theorem addItem_normalizes_values_witness:
  "new_sku (addItem_values ''alice'' mug_page) = None
   \<and> new_quantity (addItem_values ''alice'' mug_page) = Num 5
   \<and> new_quantity (addItem_values ''alice'' (mug_page\<lparr>quantity_input := NaN\<rparr>)) = Num 0
   \<and> new_low_stock_threshold (addItem_values ''alice'' (mug_page\<lparr>threshold := Infinity\<rparr>)) = Num 10
   \<and> parseFloat (unitPrice mug_page) = Num (5629218059236409 / 281474976710656)
   \<and> new_unit_price (addItem_values ''alice'' mug_page) = Some (Num 20)
   \<and> addItem_mutationFn (Some ''alice'') mug_page ''i9'' 50 [] = (Inr (), [mug])
   \<and> quantity mug = 5 \<and> unit_price mug = Some 20 \<and> unit_price_read mug = Some (Num 20)
   \<and> queryFn (Some ''alice'') [mug] = Inr [mug]"
proof -
  have a: "trim (sku_input mug_page) = []" "quantity_input mug_page = Num 5"
    "unitPrice mug_page = (str ''19.999'')" "threshold mug_page = Num 10"
    "trim (name_input mug_page) \<noteq> []"
    by (simp_all add: mug_page_def initial_page_def trim_def isWhiteSpace_cu str_Nil str_Cons
        cu_eq_iff)
  have b: "parseFloat (str ''19.999'') = Num (5629218059236409 / 281474976710656)"
    "(\<bar>5629218059236409 / 281474976710656\<bar> :: rat) < 10 ^ 21"
    by (simp_all add: js_eval)
  have c: "quantity_input (mug_page\<lparr>quantity_input := NaN\<rparr>) = NaN"
    "threshold (mug_page\<lparr>threshold := Infinity\<rparr>) = Infinity"
    "\<not> Number_isFinite NaN" "\<not> Number_isFinite Infinity" "Number_isFinite (Num 5)"
    by (simp_all add: Number_isFinite_def)
  have d: "new_unit_price (addItem_values ''alice'' mug_page) = Some (Num 20)"
    by (simp add: addItem_values_def a example_values)
  have e: "quantity mug = 5" "unit_price mug = Some 20" "unit_price_read mug = Some (Num 20)"
    "queryFn (Some ''alice'') [mug] = Inr [mug]"
    by (simp_all add: mug_def unit_price_read_def example_values queryFn_def
        select_order_created_at_desc_def policy_select_def)
  show ?thesis
    using addItem_normalizes_values [of "''alice''" mug_page "''i9''" "[]" 50]
      addItem_normalizes_values [of "''alice''" "mug_page\<lparr>quantity_input := NaN\<rparr>" "''i9''" "[]" 50]
      addItem_normalizes_values [of "''alice''" "mug_page\<lparr>threshold := Infinity\<rparr>" "''i9''" "[]" 50]
      a b c d e addItem_mug
    by simp
qed

end
